theory Spec2Isabelle
  imports Main
begin

section \<open>JavaScript values and platform functions\<close>

text \<open>
  The repository has two programs: the edge proxy (\<^verbatim>\<open>src/api.js\<close>, one function
  \<^verbatim>\<open>handleRequest\<close>) and the browser client (class \<^verbatim>\<open>FeteVoisinsApiClient\<close>).
  Both are embedded as functions that take the platform they run on and return their
  result together with everything they did to the outside world. An \<^verbatim>\<open>await\<close> is
  sequential composition, a rejected promise or a thrown exception is \<open>Inl\<close> of a sum.

  A character is a UTF-16 code unit below 256, so that the accented letters of the
  program's messages are single characters; strings with other code units are outside
  the model. A value read from a JSON text or held in a plain data object is a \<open>json\<close>;
  \<^verbatim>\<open>undefined\<close> (the value of an absent property) is \<open>None\<close> of \<open>json option\<close>. Numbers
  are the integers that a double holds exactly and prints in plain decimal; the program
  only tests a number for being zero and prints it.
\<close>

datatype json =
    JNull
  | JBool bool
  | JNum int
  | JStr string
  | JArr "json list"
  | JObj "(string \<times> json) list"

type_synonym props = "(string \<times> json) list"

text \<open>ToBoolean: the conditions of \<^verbatim>\<open>if (x)\<close>, \<^verbatim>\<open>!x\<close>, \<^verbatim>\<open>x || y\<close> and \<^verbatim>\<open>x && y\<close>.\<close>

fun truthy :: "json \<Rightarrow> bool" where
  "truthy JNull = False"
| "truthy (JBool b) = b"
| "truthy (JNum n) = (n \<noteq> 0)"
| "truthy (JStr s) = (s \<noteq> [])"
| "truthy (JArr xs) = True"
| "truthy (JObj ps) = True"

fun truthy_opt :: "json option \<Rightarrow> bool" where
  "truthy_opt None = False"
| "truthy_opt (Some v) = truthy v"

text \<open>\<^verbatim>\<open>s || d\<close> on a string that may be \<^verbatim>\<open>null\<close>.\<close>

fun or_else :: "string option \<Rightarrow> string \<Rightarrow> string" where
  "or_else None d = d"
| "or_else (Some s) d = (if s = [] then d else s)"

definition e_acute :: char where "e_acute = CHR 0xE9"
definition e_circ :: char where "e_circ = CHR 0xEA"
definition i_circ :: char where "i_circ = CHR 0xEE"

text \<open>\<^verbatim>\<open>String.prototype.includes\<close>: the argument occurs as a contiguous run.\<close>

fun includes_str :: "string \<Rightarrow> string \<Rightarrow> bool" where
  "includes_str [] sub = (sub = [])"
| "includes_str (c # cs) sub = (take (length sub) (c # cs) = sub \<or> includes_str cs sub)"

text \<open>\<^verbatim>\<open>Array.prototype.join\<close> on strings.\<close>

fun join :: "string \<Rightarrow> string list \<Rightarrow> string" where
  "join sep [] = []"
| "join sep [x] = x"
| "join sep (x # y # ys) = x @ sep @ join sep (y # ys)"

text \<open>White space of \<^verbatim>\<open>parseInt\<close>, \<^verbatim>\<open>trim\<close> and the regular expression class \<^verbatim>\<open>\s\<close>,
  among the code units below 256: TAB, LF, VT, FF, CR, space and NBSP.\<close>

definition is_ws :: "char \<Rightarrow> bool" where
  "is_ws c = (of_char c \<in> {9, 10, 11, 12, 13, 32, 160 :: nat})"

text \<open>The value of a digit in a radix of at most 16 (letters in either case).\<close>

definition digit_val :: "nat \<Rightarrow> char \<Rightarrow> nat option" where
  "digit_val radix c =
     (let n = of_char c :: nat;
          v = (if 48 \<le> n \<and> n \<le> 57 then n - 48
               else if 97 \<le> n \<and> n \<le> 102 then n - 87
               else if 65 \<le> n \<and> n \<le> 70 then n - 55
               else radix)
      in if v < radix then Some v else None)"

fun digits_value :: "nat \<Rightarrow> nat \<Rightarrow> string \<Rightarrow> nat" where
  "digits_value radix acc [] = acc"
| "digits_value radix acc (c # cs) =
     digits_value radix (acc * radix + (case digit_val radix c of Some v \<Rightarrow> v | None \<Rightarrow> 0)) cs"

text \<open>
  \<^verbatim>\<open>parseInt(s)\<close> with no radix argument: leading white space is skipped, a sign is read,
  a prefix \<^verbatim>\<open>0x\<close> or \<^verbatim>\<open>0X\<close> selects radix 16, then the longest run of digits is read and
  the rest ignored. No digit gives \<^verbatim>\<open>NaN\<close>, here \<open>None\<close>. The result is the exact integer;
  the program only compares it with small constants, which the rounding to a double of a
  long digit string does not change.
\<close>

definition parseInt :: "string \<Rightarrow> int option" where
  "parseInt s =
     (let s1 = dropWhile is_ws s;
          neg = (s1 \<noteq> [] \<and> hd s1 = CHR ''-'');
          s2 = (if s1 \<noteq> [] \<and> (hd s1 = CHR ''-'' \<or> hd s1 = CHR ''+'') then tl s1 else s1);
          hex = (take 2 s2 = ''0x'' \<or> take 2 s2 = ''0X'');
          radix = (if hex then 16 else 10);
          s3 = (if hex then drop 2 s2 else s2);
          ds = takeWhile (\<lambda>c. digit_val radix c \<noteq> None) s3
      in if ds = [] then None
         else Some ((if neg then - 1 else 1) * int (digits_value radix 0 ds)))"

text \<open>Decimal digits of a number, as template literals and \<^verbatim>\<open>JSON.stringify\<close> print it.\<close>

function show_nat :: "nat \<Rightarrow> string" where
  "show_nat n =
     (if n < 10 then [''0123456789'' ! n]
      else show_nat (n div 10) @ [''0123456789'' ! (n mod 10)])"
  by pat_completeness auto
termination
  by (relation "measure id") auto

declare show_nat.simps [simp del]

definition show_int :: "int \<Rightarrow> string" where
  "show_int i = (if i < 0 then ''-'' @ show_nat (nat (- i)) else show_nat (nat i))"

text \<open>
  ToString, as \<^verbatim>\<open>new Error(x)\<close>, \<^verbatim>\<open>regex.test(x)\<close> and \<^verbatim>\<open>parseInt(x)\<close> apply it to
  their argument: an array prints its elements separated by commas, \<^verbatim>\<open>null\<close> elements
  as nothing; an object that does not redefine \<^verbatim>\<open>toString\<close> prints as
  \<^verbatim>\<open>[object Object]\<close>; \<^verbatim>\<open>undefined\<close> prints as its name.
\<close>

fun to_string :: "json \<Rightarrow> string"
  and elements_to_string :: "json list \<Rightarrow> string" where
  "to_string JNull = ''null''"
| "to_string (JBool b) = (if b then ''true'' else ''false'')"
| "to_string (JNum n) = show_int n"
| "to_string (JStr s) = s"
| "to_string (JArr xs) = elements_to_string xs"
| "to_string (JObj ps) = ''[object Object]''"
| "elements_to_string [] = []"
| "elements_to_string (x # xs) =
     (case x of JNull \<Rightarrow> [] | _ \<Rightarrow> to_string x)
       @ (if xs = [] then [] else '','' @ elements_to_string xs)"

fun to_string_opt :: "json option \<Rightarrow> string" where
  "to_string_opt None = ''undefined''"
| "to_string_opt (Some v) = to_string v"

text \<open>
  \<^verbatim>\<open>JSON.stringify\<close> on a value of type \<open>json\<close>. A string is quoted; the quote, the
  backslash and the code units below 32 are escaped.
\<close>

definition escape_char :: "char \<Rightarrow> string" where
  "escape_char c =
     (let n = of_char c :: nat in
      if n = 34 then [CHR 0x5C, CHR 0x22]
      else if n = 92 then [CHR 0x5C, CHR 0x5C]
      else if n = 8 then [CHR 0x5C, CHR ''b'']
      else if n = 12 then [CHR 0x5C, CHR ''f'']
      else if n = 10 then [CHR 0x5C, CHR ''n'']
      else if n = 13 then [CHR 0x5C, CHR ''r'']
      else if n = 9 then [CHR 0x5C, CHR ''t'']
      else if n < 32 then
        [CHR 0x5C, CHR ''u'', CHR ''0'', CHR ''0'',
         ''0123456789abcdef'' ! (n div 16), ''0123456789abcdef'' ! (n mod 16)]
      else [c])"

definition quote :: "string \<Rightarrow> string" where
  "quote s = [CHR 0x22] @ concat (map escape_char s) @ [CHR 0x22]"

fun stringify :: "json \<Rightarrow> string"
  and stringify_elements :: "json list \<Rightarrow> string"
  and stringify_members :: "(string \<times> json) list \<Rightarrow> string" where
  "stringify JNull = ''null''"
| "stringify (JBool b) = (if b then ''true'' else ''false'')"
| "stringify (JNum n) = show_int n"
| "stringify (JStr s) = quote s"
| "stringify (JArr xs) = ''['' @ stringify_elements xs @ '']''"
| "stringify (JObj ps) = ''{'' @ stringify_members ps @ ''}''"
| "stringify_elements [] = []"
| "stringify_elements (x # xs) =
     stringify x @ (if xs = [] then [] else '','' @ stringify_elements xs)"
| "stringify_members [] = []"
| "stringify_members (p # ps) =
     quote (fst p) @ '':'' @ stringify (snd p)
       @ (if ps = [] then [] else '','' @ stringify_members ps)"

text \<open>
  Reading and writing a property of a plain data object. An object keeps its properties
  in the order they were first written; writing an existing one keeps its place.
\<close>

fun set_prop :: "(string \<times> 'a) list \<Rightarrow> string \<Rightarrow> 'a \<Rightarrow> (string \<times> 'a) list" where
  "set_prop [] k v = [(k, v)]"
| "set_prop (p # ps) k v = (if fst p = k then (k, v) # ps else p # set_prop ps k v)"

text \<open>
  \<^verbatim>\<open>x.k\<close> for the property names this program reads (\<^verbatim>\<open>newCsrfToken\<close>, \<^verbatim>\<open>csrfToken\<close>,
  \<^verbatim>\<open>result\<close>, \<^verbatim>\<open>error\<close>), which no built-in prototype defines: \<^verbatim>\<open>undefined\<close> on a
  primitive or an array. On \<^verbatim>\<open>null\<close> the read throws; the callers below test for
  \<^verbatim>\<open>null\<close> first.
\<close>

fun get_prop :: "json \<Rightarrow> string \<Rightarrow> json option" where
  "get_prop (JObj ps) k = map_of ps k"
| "get_prop _ k = None"

text \<open>The value of a property when it is there and truthy: the test \<^verbatim>\<open>if (x.k)\<close>.\<close>

definition truthy_prop :: "json \<Rightarrow> string \<Rightarrow> json option" where
  "truthy_prop x k =
     (case get_prop x k of None \<Rightarrow> None | Some v \<Rightarrow> if truthy v then Some v else None)"

text \<open>
  What the programs take from the platform. \<^verbatim>\<open>JSON.parse\<close> is a parameter (\<open>None\<close> is
  a thrown SyntaxError). \<open>fetch\<close> is the network: it answers the \<open>n\<close>-th outbound call
  of an execution, so the answers may depend on everything sent before; an answer is a
  rejection with the platform's message or a response with its status, status text and
  body text. \<open>Response_throws\<close> says for which body and status the constructor
  \<^verbatim>\<open>new Response(body, {status})\<close> throws when the status is the one an upstream answer
  carries. \<open>page_origin\<close> is \<^verbatim>\<open>window.location.origin\<close>, and \<open>native_text\<close> is the
  message the engine gives a TypeError it raises itself.
\<close>

datatype native_fault = NullProperty string | NotCallable string

datatype js_error = Error string | TypeError native_fault | FetchFailed string

record url =
  base :: string
  query :: "(string \<times> string) list"

record fetch_request =
  target :: url
  http_method :: string
  req_headers :: "(string \<times> string) list"
  cors_mode :: "string option"
  credentials :: "string option"
  req_body :: "string option"

datatype fetch_result =
    Rejected string
  | Responded nat string string

record platform =
  JSON_parse :: "string \<Rightarrow> json option"
  fetch :: "nat \<Rightarrow> fetch_request \<Rightarrow> fetch_result"
  Response_throws :: "string \<Rightarrow> nat \<Rightarrow> bool"
  page_origin :: string
  native_text :: "native_fault \<Rightarrow> string"

section \<open>The edge proxy: \<^verbatim>\<open>handleRequest\<close>\<close>

definition API_URL :: string where
  "API_URL = ''https://script.google.com/macros/s/AKfycbx8hiEDN_ncShkzXKoOk79enFAvcH7TP_xV0KmEqtB5dj1hOkL7f4iterT_KT45PHXoGw/exec''"

definition ALLOWED_ORIGINS :: "string list" where
  "ALLOWED_ORIGINS = [''https://djamchid.github.io'']"

definition MAX_PAYLOAD_SIZE :: int where
  "MAX_PAYLOAD_SIZE = 1024 * 1024"

text \<open>
  An inbound request: \<open>req_method\<close> is \<^verbatim>\<open>request.method\<close>, \<open>headers\<close> is
  \<^verbatim>\<open>request.headers.get\<close> (\<open>None\<close> for \<^verbatim>\<open>null\<close>),
  \<open>search_params\<close> the entries of \<^verbatim>\<open>new URL(request.url).searchParams\<close> in order,
  \<open>body_text\<close> the body as \<^verbatim>\<open>request.text()\<close> delivers it.
\<close>

record request =
  req_method :: string
  headers :: "string \<Rightarrow> string option"
  search_params :: "(string \<times> string) list"
  body_text :: string

record response =
  status :: nat
  resp_headers :: "(string \<times> string) list"
  resp_body :: "string option"

text \<open>What a run of the proxy does besides returning: it reads the request body, it
  calls the upstream.\<close>

datatype effect = BodyRead | UpstreamCall fetch_request

definition error_object :: "string \<Rightarrow> json" where
  "error_object msg = JObj [(''result'', JStr ''error''), (''error'', JStr msg)]"

definition content_type_json :: "(string \<times> string) list" where
  "content_type_json = [(''Content-Type'', ''application/json'')]"

definition corsHeaders :: "string \<Rightarrow> (string \<times> string) list" where
  "corsHeaders origin =
     [(''Access-Control-Allow-Origin'', origin),
      (''Access-Control-Allow-Methods'', ''GET, POST, OPTIONS''),
      (''Access-Control-Allow-Headers'', ''Content-Type, X-Requested-With''),
      (''Access-Control-Max-Age'', ''86400'')]"

definition msg_origin :: string where
  "msg_origin = ''Origine non autoris'' @ [e_acute] @ ''e''"

definition msg_too_large :: string where
  "msg_too_large = ''Taille de la requ'' @ [e_circ] @ ''te trop importante''"

definition msg_bad_json :: string where
  "msg_bad_json = ''Format JSON invalide''"

definition msg_upstream :: string where
  "msg_upstream = ''Erreur lors de la communication avec le serveur''"

definition msg_method :: string where
  "msg_method = ''M'' @ [e_acute] @ ''thode non support'' @ [e_acute] @ ''e''"

text \<open>The response of lines 12-20: the only one built before \<^verbatim>\<open>corsHeaders\<close> exists.\<close>

definition forbidden :: response where
  "forbidden =
     \<lparr>status = 403, resp_headers = content_type_json,
      resp_body = Some (stringify (error_object msg_origin))\<rparr>"

text \<open>The error responses built after \<^verbatim>\<open>corsHeaders\<close>: 413, 400 and 500.\<close>

definition error_response :: "string \<Rightarrow> nat \<Rightarrow> string \<Rightarrow> response" where
  "error_response origin code msg =
     \<lparr>status = code, resp_headers = corsHeaders origin @ content_type_json,
      resp_body = Some (stringify (error_object msg))\<rparr>"

text \<open>
  The end of both \<^verbatim>\<open>try\<close> blocks: the call to the upstream, then the relay of its
  status and text. A rejected \<^verbatim>\<open>fetch\<close> and a throwing \<^verbatim>\<open>Response\<close> constructor are
  caught by the enclosing \<^verbatim>\<open>catch\<close>, which answers 500 with the generic message.
  The call is recorded here, where \<^verbatim>\<open>fetch\<close> is applied to it.
\<close>

definition relay :: "platform \<Rightarrow> string \<Rightarrow> fetch_request \<Rightarrow> response \<times> effect list" where
  "relay P origin call =
     (case fetch P 0 call of
        Rejected m \<Rightarrow> (error_response origin 500 msg_upstream, [UpstreamCall call])
      | Responded st st_text data \<Rightarrow>
          (if Response_throws P data st then error_response origin 500 msg_upstream
           else \<lparr>status = st, resp_headers = corsHeaders origin @ content_type_json,
                 resp_body = Some data\<rparr>,
           [UpstreamCall call]))"

definition get_call :: "request \<Rightarrow> fetch_request" where
  "get_call request =
     \<lparr>target = \<lparr>base = API_URL, query = search_params request\<rparr>,
      http_method = ''GET'',
      req_headers = [(''User-Agent'', ''FeteVoisinsProxy/1.0'')],
      cors_mode = None, credentials = None, req_body = None\<rparr>"

definition post_call :: "string option \<Rightarrow> string \<Rightarrow> fetch_request" where
  "post_call contentType body =
     \<lparr>target = \<lparr>base = API_URL, query = []\<rparr>,
      http_method = ''POST'',
      req_headers = [(''Content-Type'', or_else contentType ''application/json''),
                     (''User-Agent'', ''FeteVoisinsProxy/1.0'')],
      cors_mode = None, credentials = None, req_body = Some body\<rparr>"

text \<open>\<^verbatim>\<open>contentLength > MAX_PAYLOAD_SIZE\<close>, false when \<^verbatim>\<open>contentLength\<close> is \<^verbatim>\<open>NaN\<close>.\<close>

definition too_large :: "request \<Rightarrow> bool" where
  "too_large request =
     (case parseInt (or_else (headers request ''Content-Length'') ''0'') of
        None \<Rightarrow> False
      | Some contentLength \<Rightarrow> contentLength > MAX_PAYLOAD_SIZE)"

text \<open>\<^verbatim>\<open>contentType && contentType.includes('application/json')\<close>\<close>

definition is_json_type :: "string option \<Rightarrow> bool" where
  "is_json_type contentType =
     (case contentType of
        None \<Rightarrow> False
      | Some ct \<Rightarrow> ct \<noteq> [] \<and> includes_str ct ''application/json'')"

text \<open>\<^verbatim>\<open>typeof body === 'string' ? body : JSON.stringify(body)\<close> on a parsed body.\<close>

definition forwarded_text :: "json \<Rightarrow> string" where
  "forwarded_text body = (case body of JStr s \<Rightarrow> s | _ \<Rightarrow> stringify body)"

definition handlePost :: "platform \<Rightarrow> string \<Rightarrow> request \<Rightarrow> response \<times> effect list" where
  "handlePost P origin request =
     (if too_large request then (error_response origin 413 msg_too_large, [])
      else
        let contentType = headers request ''Content-Type'' in
        if is_json_type contentType then
          (case JSON_parse P (body_text request) of
             None \<Rightarrow> (error_response origin 400 msg_bad_json, [BodyRead])
           | Some body \<Rightarrow>
               (case relay P origin (post_call contentType (forwarded_text body)) of
                  (relayed, called) \<Rightarrow> (relayed, BodyRead # called)))
        else
          (case relay P origin (post_call contentType (body_text request)) of
             (relayed, called) \<Rightarrow> (relayed, BodyRead # called)))"

definition handleRequest :: "platform \<Rightarrow> request \<Rightarrow> response \<times> effect list" where
  "handleRequest P request =
     (case headers request ''Origin'' of
        None \<Rightarrow> (forbidden, [])
      | Some origin \<Rightarrow>
          if origin \<notin> set ALLOWED_ORIGINS then (forbidden, [])
          else if req_method request = ''OPTIONS'' then
            (\<lparr>status = 204, resp_headers = corsHeaders origin, resp_body = None\<rparr>, [])
          else if req_method request = ''GET'' then
            relay P origin (get_call request)
          else if req_method request = ''POST'' then handlePost P origin request
          else
            (\<lparr>status = 405,
              resp_headers = corsHeaders origin @ content_type_json
                               @ [(''Allow'', ''GET, POST, OPTIONS'')],
              resp_body = Some (stringify (error_object msg_method))\<rparr>, []))"

text \<open>The request's origin is on the allow-list: \<^verbatim>\<open>ALLOWED_ORIGINS.includes(origin)\<close>.\<close>

definition origin_allowed :: "request \<Rightarrow> bool" where
  "origin_allowed request =
     (case headers request ''Origin'' of None \<Rightarrow> False | Some origin \<Rightarrow> origin \<in> set ALLOWED_ORIGINS)"

definition upstream_calls :: "effect list \<Rightarrow> fetch_request list" where
  "upstream_calls es = concat (map (\<lambda>e. case e of UpstreamCall c \<Rightarrow> [c] | BodyRead \<Rightarrow> []) es)"

text \<open>\<^verbatim>\<open>Headers.get\<close> on the headers of a response the proxy built.\<close>

definition header :: "response \<Rightarrow> string \<Rightarrow> string option" where
  "header r name = map_of (resp_headers r) name"

section \<open>The browser client: class \<^verbatim>\<open>FeteVoisinsApiClient\<close>\<close>

text \<open>
  The client's fields (\<open>csrfToken\<close>, \<open>lastError\<close>, \<open>isInitialized\<close>) and what is
  outside it: \<open>objects\<close>, the store of the caller's plain data objects by reference (the
  form data is passed by reference and written to); \<open>calls\<close>, the \<^verbatim>\<open>fetch\<close> calls
  made so far, oldest first; \<open>signals\<close>, the events dispatched on the document. One
  meth call runs from start to end without another one interleaved.
\<close>

datatype signal = ApiReady | ApiError string

record world =
  csrfToken :: json
  lastError :: json
  isInitialized :: bool
  objects :: "nat \<Rightarrow> props"
  calls :: "fetch_request list"
  signals :: "signal list"

definition client_API_URL :: string where
  "client_API_URL = ''https://script.google.com/macros/s/AKfycbwQQxPHrQxXm4Rx1NItu0Ejcj0BNE032zwrStBU7_zcV40VY0trPwk2CBKZN7gQ5Zp0fA/exec''"

definition message :: "platform \<Rightarrow> js_error \<Rightarrow> string" where
  "message P e =
     (case e of Error m \<Rightarrow> m | TypeError f \<Rightarrow> native_text P f | FetchFailed m \<Rightarrow> m)"

text \<open>\<^verbatim>\<open>error.message || fallback\<close>\<close>

definition message_or :: "platform \<Rightarrow> js_error \<Rightarrow> string \<Rightarrow> string" where
  "message_or P e fallback = (if message P e = [] then fallback else message P e)"

definition msg_no_token :: string where
  "msg_no_token = ''Pas de jeton CSRF dans la r'' @ [e_acute] @ ''ponse''"

definition msg_refresh_prefix :: string where
  "msg_refresh_prefix = ''Erreur de rafra'' @ [i_circ] @ ''chissement du jeton: ''"

definition msg_bad_format :: string where
  "msg_bad_format = ''Format de r'' @ [e_acute] @ ''ponse invalide''"

definition msg_submit_prefix :: string where
  "msg_submit_prefix = ''Erreur lors de l'envoi de la contribution: ''"

definition invalid_token_marker :: string where
  "invalid_token_marker = ''jeton invalide''"

subsection \<open>\<^verbatim>\<open>makeRequest\<close>\<close>

text \<open>Lines 90-92: \<^verbatim>\<open>if (!params.origin) params.origin = window.location.origin\<close>.\<close>

definition with_origin :: "platform \<Rightarrow> (string \<times> string) list \<Rightarrow> (string \<times> string) list" where
  "with_origin P params =
     (if or_else (map_of params ''origin'') [] = [] then set_prop params ''origin'' (page_origin P)
      else params)"

text \<open>Lines 112-116: the writes to the caller's object, for a POST with data.\<close>

definition inject :: "platform \<Rightarrow> world \<Rightarrow> string \<Rightarrow> nat option \<Rightarrow> world" where
  "inject P w meth data =
     (case data of
        None \<Rightarrow> w
      | Some r \<Rightarrow>
          if meth = ''POST'' then
            w\<lparr>objects := (objects w)
                 (r := set_prop (set_prop (objects w r) ''csrfToken'' (csrfToken w))
                         ''origin'' (JStr (page_origin P)))\<rparr>
          else w)"

text \<open>Lines 87-121: the URL and the options handed to \<^verbatim>\<open>fetch\<close>.\<close>

definition request_for ::
  "platform \<Rightarrow> world \<Rightarrow> string \<Rightarrow> (string \<times> string) list \<Rightarrow> nat option \<Rightarrow> fetch_request" where
  "request_for P w meth params data =
     (let posting = (meth = ''POST'' \<and> data \<noteq> None) in
      \<lparr>target = \<lparr>base = client_API_URL, query = with_origin P params\<rparr>,
       http_method = meth,
       req_headers = [(''User-Agent'', ''FeteVoisinsClient/1.0'')]
                      @ (if posting then [(''Content-Type'', ''application/json'')] else []),
       cors_mode = Some ''cors'',
       credentials = Some ''omit'',
       req_body = (case data of
                     None \<Rightarrow> None
                   | Some r \<Rightarrow>
                       if meth = ''POST''
                       then Some (stringify (JObj (objects (inject P w meth data) r)))
                       else None)\<rparr>)"

text \<open>Lines 144-151: the token held after a response body has been parsed.\<close>

definition update_token :: "json \<Rightarrow> world \<Rightarrow> world" where
  "update_token responseData w =
     (case truthy_prop responseData ''newCsrfToken'' of
        Some t \<Rightarrow> w\<lparr>csrfToken := t\<rparr>
      | None \<Rightarrow>
          (case truthy_prop responseData ''csrfToken'' of
             Some t \<Rightarrow> w\<lparr>csrfToken := t\<rparr>
           | None \<Rightarrow> w))"

text \<open>Lines 126-159: from the answer of \<^verbatim>\<open>fetch\<close> to the returned body or the throw.\<close>

definition on_answer :: "platform \<Rightarrow> world \<Rightarrow> fetch_result \<Rightarrow> (js_error + json) \<times> world" where
  "on_answer P w answer =
     (case answer of
        Rejected m \<Rightarrow> (Inl (FetchFailed m), w)
      | Responded st st_text responseText \<Rightarrow>
          if \<not> (200 \<le> st \<and> st \<le> 299) then
            (Inl (Error (''Erreur HTTP: '' @ show_nat st @ '' '' @ st_text)), w)
          else
            (case JSON_parse P responseText of
               None \<Rightarrow> (Inl (Error msg_bad_format), w)
             | Some responseData \<Rightarrow>
                 if responseData = JNull then
                   (Inl (TypeError (NullProperty ''newCsrfToken'')), w)
                 else
                   let w1 = update_token responseData w in
                   if get_prop responseData ''result'' = Some (JStr ''error'') then
                     let le = (case truthy_prop responseData ''error'' of
                                 Some v \<Rightarrow> v
                               | None \<Rightarrow> JStr ''Erreur inconnue'')
                     in (Inl (Error (to_string le)), w1\<lparr>lastError := le\<rparr>)
                   else (Inr responseData, w1)))"

definition makeRequest ::
  "platform \<Rightarrow> world \<Rightarrow> string \<Rightarrow> (string \<times> string) list \<Rightarrow> nat option
     \<Rightarrow> (js_error + json) \<times> world" where
  "makeRequest P w meth params data =
     (let call = request_for P w meth params data;
          w1 = inject P w meth data;
          w2 = w1\<lparr>calls := calls w1 @ [call]\<rparr>
      in case on_answer P w2 (fetch P (length (calls w)) call) of
           (Inl error, w3) \<Rightarrow>
             (Inl error, w3\<lparr>lastError := JStr (message_or P error ''Erreur de communication'')\<rparr>)
         | (Inr responseData, w3) \<Rightarrow> (Inr responseData, w3))"

subsection \<open>\<^verbatim>\<open>refreshCsrfToken\<close> and \<^verbatim>\<open>init\<close>\<close>

definition refresh_params :: "platform \<Rightarrow> (string \<times> string) list" where
  "refresh_params P = [(''origin'', page_origin P)]"

definition refreshCsrfToken :: "platform \<Rightarrow> world \<Rightarrow> (js_error + bool) \<times> world" where
  "refreshCsrfToken P w =
     (let tried =
            (case makeRequest P w ''GET'' (refresh_params P) None of
               (Inl error, w1) \<Rightarrow> (Inl error, w1)
             | (Inr response, w1) \<Rightarrow>
                 (case (if truthy response then truthy_prop response ''csrfToken'' else None) of
                    Some t \<Rightarrow> (Inr True, w1\<lparr>csrfToken := t\<rparr>)
                  | None \<Rightarrow> (Inl (Error msg_no_token), w1)))
      in case tried of
           (Inl error, w2) \<Rightarrow>
             (Inl error,
              w2\<lparr>lastError := JStr (msg_refresh_prefix @ message_or P error ''Erreur inconnue'')\<rparr>)
         | (Inr ok, w2) \<Rightarrow> (Inr ok, w2))"

definition init :: "platform \<Rightarrow> world \<Rightarrow> bool \<times> world" where
  "init P w =
     (case refreshCsrfToken P w of
        (Inr ok, w1) \<Rightarrow>
          (True, w1\<lparr>isInitialized := True, signals := signals w1 @ [ApiReady]\<rparr>)
      | (Inl error, w1) \<Rightarrow>
          (let le = message_or P error ''Erreur d'initialisation''
           in (False, w1\<lparr>lastError := JStr le, signals := signals w1 @ [ApiError le]\<rparr>)))"

subsection \<open>\<^verbatim>\<open>validateFormData\<close>\<close>

definition requiredFields :: "string list" where
  "requiredFields = [''nom'', ''email'', ''categorie'', ''detail'', ''portions'']"

definition validCategories :: "string list" where
  "validCategories = [''sale'', ''sucre'', ''soft'', ''alco'']"

text \<open>Lines 239-243: the fields \<^verbatim>\<open>f\<close> with \<^verbatim>\<open>!data[f]\<close>, in the order of \<^verbatim>\<open>requiredFields\<close>.\<close>

definition missingFields :: "props \<Rightarrow> string list" where
  "missingFields data = filter (\<lambda>field. \<not> truthy_opt (map_of data field)) requiredFields"

definition msg_missing :: "string list \<Rightarrow> string" where
  "msg_missing names = ''Champs obligatoires manquants: '' @ join '', '' names"

text \<open>
  \<^verbatim>\<open>/^[^\s@]+@[^\s@]+\.[^\s@]+$/\<close>: the class \<^verbatim>\<open>[^\s@]\<close> contains the dot, so a match is
  a non-empty run of the class, the first \<^verbatim>\<open>@\<close>, and a run of the class that has a dot
  which is neither its first nor its last character.
\<close>

definition in_class :: "char \<Rightarrow> bool" where
  "in_class c = (\<not> is_ws c \<and> c \<noteq> CHR ''@'')"

definition emailRegex :: "string \<Rightarrow> bool" where
  "emailRegex s =
     (takeWhile in_class s \<noteq> [] \<and>
      (case dropWhile in_class s of
         [] \<Rightarrow> False
       | c # t \<Rightarrow> c = CHR ''@'' \<and> list_all in_class t \<and> CHR ''.'' \<in> set (butlast (tl t))))"

text \<open>\<^verbatim>\<open>/^[0-9]{10}$/\<close>\<close>

definition phoneRegex :: "string \<Rightarrow> bool" where
  "phoneRegex s = (length s = 10 \<and> list_all (\<lambda>c. digit_val 10 c \<noteq> None) s)"

definition trim :: "string \<Rightarrow> string" where
  "trim s = rev (dropWhile is_ws (rev (dropWhile is_ws s)))"

text \<open>\<^verbatim>\<open>isNaN(n) || n < lo || n > hi\<close> on the result of \<^verbatim>\<open>parseInt\<close>.\<close>

definition out_of_range :: "int option \<Rightarrow> int \<Rightarrow> int \<Rightarrow> bool" where
  "out_of_range n lo hi = (case n of None \<Rightarrow> True | Some k \<Rightarrow> k < lo \<or> k > hi)"

text \<open>Lines 274-279. \<^verbatim>\<open>trim\<close> is a meth of strings only.\<close>

definition check_telephone :: "props \<Rightarrow> js_error + bool" where
  "check_telephone data =
     (case truthy_prop (JObj data) ''telephone'' of
        None \<Rightarrow> Inr True
      | Some (JStr s) \<Rightarrow>
          if trim s \<noteq> [] \<and> \<not> phoneRegex s
          then Inl (Error (''Format de t'' @ [e_acute] @ ''l'' @ [e_acute]
                            @ ''phone invalide (10 chiffres attendus)''))
          else Inr True
      | Some _ \<Rightarrow> Inl (TypeError (NotCallable ''trim'')))"

text \<open>The argument is the object's properties, or \<open>None\<close> for \<^verbatim>\<open>null\<close>.\<close>

definition validateFormData :: "props option \<Rightarrow> js_error + bool" where
  "validateFormData data_arg =
     (case data_arg of
        None \<Rightarrow> Inl (Error (''Aucune donn'' @ [e_acute] @ ''e fournie''))
      | Some data \<Rightarrow>
          if missingFields data \<noteq> [] then Inl (Error (msg_missing (missingFields data)))
          else if \<not> emailRegex (to_string_opt (map_of data ''email'')) then
            Inl (Error ''Format d'email invalide'')
          else if \<not> (case map_of data ''categorie'' of
                      Some (JStr c) \<Rightarrow> c \<in> set validCategories
                    | _ \<Rightarrow> False) then
            Inl (Error (''Cat'' @ [e_acute] @ ''gorie invalide''))
          else if out_of_range (parseInt (to_string_opt (map_of data ''nbPersonnes''))) 1 20 then
            Inl (Error (''Nombre de personnes invalide (doit '' @ [e_circ] @ ''tre entre 1 et 20)''))
          else if out_of_range (parseInt (to_string_opt (map_of data ''portions''))) 1 100 then
            Inl (Error (''Nombre de portions invalide (doit '' @ [e_circ] @ ''tre entre 1 et 100)''))
          else check_telephone data)"

subsection \<open>\<^verbatim>\<open>submitContribution\<close>\<close>

text \<open>\<^verbatim>\<open>response.error && response.error.includes('jeton invalide')\<close>: \<^verbatim>\<open>includes\<close> is a
  meth of strings and of arrays.\<close>

definition error_has_marker :: "json \<Rightarrow> js_error + bool" where
  "error_has_marker response =
     (case truthy_prop response ''error'' of
        None \<Rightarrow> Inr False
      | Some (JStr s) \<Rightarrow> Inr (includes_str s invalid_token_marker)
      | Some (JArr xs) \<Rightarrow> Inr (JStr invalid_token_marker \<in> set xs)
      | Some _ \<Rightarrow> Inl (TypeError (NotCallable ''includes'')))"

text \<open>
  The \<^verbatim>\<open>try\<close> block of lines 199-217. \<open>Inl\<close> is an exception thrown inside it, which
  the \<^verbatim>\<open>catch\<close> sees. \<open>Inr\<close> is what a \<^verbatim>\<open>return\<close> hands over: the response, or, at line
  214, the promise of the second \<^verbatim>\<open>makeRequest\<close>, which is returned without
  \<^verbatim>\<open>await\<close>, so that its rejection passes the \<^verbatim>\<open>catch\<close> by.
\<close>

definition submit_try ::
  "platform \<Rightarrow> world \<Rightarrow> nat option \<Rightarrow> (js_error + (js_error + json)) \<times> world" where
  "submit_try P w formData =
     (let w0 = (if \<not> isInitialized w then snd (init P w) else w) in
      case validateFormData (map_option (objects w0) formData) of
        Inl error \<Rightarrow> (Inl error, w0)
      | Inr valid \<Rightarrow>
          (case makeRequest P w0 ''POST'' [] formData of
             (Inl error, w1) \<Rightarrow> (Inl error, w1)
           | (Inr response, w1) \<Rightarrow>
               (case error_has_marker response of
                  Inl error \<Rightarrow> (Inl error, w1)
                | Inr False \<Rightarrow> (Inr (Inr response), w1)
                | Inr True \<Rightarrow>
                    (case refreshCsrfToken P w1 of
                       (Inl error, w2) \<Rightarrow> (Inl error, w2)
                     | (Inr ok, w2) \<Rightarrow>
                         (case makeRequest P w2 ''POST'' [] formData of
                            (settled, w3) \<Rightarrow> (Inr settled, w3))))))"

definition submitContribution ::
  "platform \<Rightarrow> world \<Rightarrow> nat option \<Rightarrow> (js_error + json) \<times> world" where
  "submitContribution P w formData =
     (case submit_try P w formData of
        (Inl error, w1) \<Rightarrow>
          (Inl error,
           w1\<lparr>lastError := JStr (msg_submit_prefix @ message_or P error ''Erreur inconnue'')\<rparr>)
      | (Inr settled, w1) \<Rightarrow> (settled, w1))"

section \<open>Example platform, requests and client state\<close>

text \<open>
  Concrete inputs on which the theorems below are run. \<open>json_texts\<close> lists the JSON
  texts the examples use, each with the value \<^verbatim>\<open>JSON.parse\<close> gives it; the example
  platform parses these and rejects every other text, of which the examples use only
  \<^verbatim>\<open>{oops\<close>, which is not JSON. Its network \<open>answering payload\<close> answers every call
  with status 200 and the given body.
\<close>

definition json_texts :: "(string \<times> json) list" where
  \<open>json_texts =
     [(''{"result":"error","error":"jeton invalide"}'',
         JObj [(''result'', JStr ''error''), (''error'', JStr ''jeton invalide'')]),
      (''{"result":"success"}'', JObj [(''result'', JStr ''success'')]),
      (''{"csrfToken":"t1"}'', JObj [(''csrfToken'', JStr ''t1'')]),
      (''{"csrfToken":""}'', JObj [(''csrfToken'', JStr [])]),
      (''{"newCsrfToken":"n2"}'', JObj [(''newCsrfToken'', JStr ''n2'')]),
      (''{"newCsrfToken":"n2","csrfToken":"t1"}'',
         JObj [(''newCsrfToken'', JStr ''n2''), (''csrfToken'', JStr ''t1'')]),
      (''{"newCsrfToken":"","csrfToken":"t1"}'',
         JObj [(''newCsrfToken'', JStr []), (''csrfToken'', JStr ''t1'')])]\<close>

definition example_platform :: "(nat \<Rightarrow> fetch_request \<Rightarrow> fetch_result) \<Rightarrow> platform" where
  "example_platform net =
     \<lparr>JSON_parse = map_of json_texts,
      fetch = net,
      Response_throws = (\<lambda>body st. st < 200 \<or> 599 < st \<or> st \<in> {204, 205, 304}),
      page_origin = ''https://djamchid.github.io'',
      native_text = (\<lambda>f. ''TypeError'')\<rparr>"

definition answering :: "string \<Rightarrow> nat \<Rightarrow> fetch_request \<Rightarrow> fetch_result" where
  "answering payload n c = Responded 200 ''OK'' payload"

definition always_ok :: "nat \<Rightarrow> fetch_request \<Rightarrow> fetch_result" where
  \<open>always_ok = answering ''{"result":"success"}''\<close>

definition foreign_request :: request where
  "foreign_request =
     \<lparr>req_method = ''GET'', headers = [''Origin'' \<mapsto> ''https://evil.example''],
      search_params = [(''action'', ''getData'')], body_text = []\<rparr>"

definition post_request :: "string option \<Rightarrow> string option \<Rightarrow> string \<Rightarrow> request" where
  "post_request contentLength contentType body =
     \<lparr>req_method = ''POST'',
      headers = (\<lambda>name. if name = ''Origin'' then Some ''https://djamchid.github.io''
                         else if name = ''Content-Length'' then contentLength
                         else if name = ''Content-Type'' then contentType
                         else None),
      search_params = [], body_text = body\<rparr>"

definition foreign_post :: "string option \<Rightarrow> string option \<Rightarrow> string \<Rightarrow> request" where
  "foreign_post contentLength contentType body =
     \<lparr>req_method = ''POST'',
      headers = (\<lambda>name. if name = ''Origin'' then Some ''https://evil.example''
                         else if name = ''Content-Length'' then contentLength
                         else if name = ''Content-Type'' then contentType
                         else None),
      search_params = [], body_text = body\<rparr>"

definition example_form :: props where
  "example_form =
     [(''nom'', JStr ''Alice''), (''email'', JStr ''alice@example.org''),
      (''categorie'', JStr ''sale''), (''detail'', JStr ''Quiche''),
      (''portions'', JStr ''6''), (''nbPersonnes'', JStr ''2'')]"

definition ready_world :: world where
  "ready_world =
     \<lparr>csrfToken = JStr ''t0'', lastError = JNull, isInitialized = True,
      objects = (\<lambda>r. if r = 0 then example_form else []), calls = [], signals = []\<rparr>"

section \<open>Properties of the edge proxy\<close>

lemma handleRequest_rejected:
  "\<not> origin_allowed request \<Longrightarrow> handleRequest P request = (forbidden, [])"
  by (cases "headers request ''Origin''") (simp_all add: handleRequest_def origin_allowed_def)

lemma handleRequest_post:
  "headers request ''Origin'' = Some origin \<Longrightarrow> origin \<in> set ALLOWED_ORIGINS \<Longrightarrow>
   req_method request = ''POST'' \<Longrightarrow> handleRequest P request = handlePost P origin request"
  by (simp add: handleRequest_def)

lemma cors_lookup:
  "map_of (corsHeaders origin @ rest) ''Access-Control-Allow-Origin'' = Some origin"
  "map_of (corsHeaders origin @ rest) ''Access-Control-Allow-Methods'' = Some ''GET, POST, OPTIONS''"
  "map_of (corsHeaders origin @ rest) ''Access-Control-Allow-Headers'' = Some ''Content-Type, X-Requested-With''"
  "map_of (corsHeaders origin @ rest) ''Access-Control-Max-Age'' = Some ''86400''"
  by (simp_all add: corsHeaders_def)




lemma cors_relay:
  "\<exists>rest. resp_headers (fst (relay P origin call)) = corsHeaders origin @ rest"
  by (cases "fetch P 0 call") (simp_all add: relay_def error_response_def)

lemma cors_allowed:
  assumes "headers request ''Origin'' = Some origin" "origin \<in> set ALLOWED_ORIGINS"
  shows "\<exists>rest. resp_headers (fst (handleRequest P request)) = corsHeaders origin @ rest"
  using assms cors_relay [of P origin]
  by (auto simp: handleRequest_def handlePost_def Let_def error_response_def case_prod_beta
      split: option.splits)

lemma parseInt_empty: "parseInt [] = None"
  by (simp add: parseInt_def)

lemma too_large_declared:
  "headers request ''Content-Length'' = Some h \<Longrightarrow> parseInt h = Some n \<Longrightarrow>
   too_large request = (n > 1048576)"
proof -
  assume a: "headers request ''Content-Length'' = Some h" and b: "parseInt h = Some n"
  from b have "h \<noteq> []" using parseInt_empty by auto
  then have "or_else (Some h) ''0'' = h" by simp
  then show ?thesis by (simp add: too_large_def a b MAX_PAYLOAD_SIZE_def)
qed

lemma handlePost_too_large:
  "too_large request \<Longrightarrow> handlePost P origin request = (error_response origin 413 msg_too_large, [])"
  by (simp add: handlePost_def)

lemma handlePost_passes:
  "\<not> too_large request \<Longrightarrow> \<exists>rest. snd (handlePost P origin request) = BodyRead # rest"
  by (simp add: handlePost_def Let_def case_prod_beta split: option.splits)

lemma origin_allowedD:
  "origin_allowed request \<Longrightarrow>
   \<exists>origin. headers request ''Origin'' = Some origin \<and> origin \<in> set ALLOWED_ORIGINS"
  by (simp add: origin_allowed_def split: option.splits)





text \<open>
  Claim C4. A request whose \<^verbatim>\<open>Origin\<close> header is absent or not on the allow-list is
  answered with status 403 and the JSON body
  \<^verbatim>\<open>{"result":"error","error":"Origine non autoris.e"}\<close> (the dot stands for the
  accented letter \<open>e_acute\<close>), and the run has no effect at all: the body is not read
  and the upstream is not called.
\<close>

theorem origin_rejected:
  assumes "\<not> origin_allowed request"
  shows \<open>status (fst (handleRequest P request)) = 403
       \<and> resp_body (fst (handleRequest P request))
           = Some (stringify (JObj [(''result'', JStr ''error''), (''error'', JStr msg_origin)]))
       \<and> stringify (JObj [(''result'', JStr ''error''), (''error'', JStr msg_origin)])
           = ''{"result":"error","error":"Origine non autoris'' @ [e_acute] @ ''e"}''
       \<and> snd (handleRequest P request) = []
       \<and> upstream_calls (snd (handleRequest P request)) = []\<close>
  using assms
  by (simp add: handleRequest_rejected forbidden_def error_object_def upstream_calls_def
      msg_origin_def quote_def escape_char_def e_acute_def)

text \<open>C4 on a request from \<^verbatim>\<open>https://evil.example\<close>.\<close>

theorem origin_rejected_witness:
  "\<not> origin_allowed foreign_request
   \<and> status (fst (handleRequest (example_platform always_ok) foreign_request)) = 403
   \<and> snd (handleRequest (example_platform always_ok) foreign_request) = []"
  using origin_rejected [of foreign_request "example_platform always_ok"]
  by (simp add: origin_allowed_def foreign_request_def ALLOWED_ORIGINS_def)

text \<open>
  Claim C2, as the code has it. When the \<^verbatim>\<open>Origin\<close> header is on the allow-list, the
  response carries the four CORS headers whatever the HTTP verb, the body and the upstream's
  answer are: \<^verbatim>\<open>Access-Control-Allow-Origin\<close> is the request's origin, the three others
  have the fixed values. The 403 response of a rejected origin is built before the CORS
  headers are and carries \<^verbatim>\<open>Content-Type\<close> only.
\<close>

theorem cors_headers_on_accepted_origin:
  "(\<forall>origin. headers request ''Origin'' = Some origin \<and> origin \<in> set ALLOWED_ORIGINS \<longrightarrow>
      header (fst (handleRequest P request)) ''Access-Control-Allow-Origin'' = Some origin
    \<and> header (fst (handleRequest P request)) ''Access-Control-Allow-Methods''
        = Some ''GET, POST, OPTIONS''
    \<and> header (fst (handleRequest P request)) ''Access-Control-Allow-Headers''
        = Some ''Content-Type, X-Requested-With''
    \<and> header (fst (handleRequest P request)) ''Access-Control-Max-Age'' = Some ''86400'')
   \<and> (\<not> origin_allowed request \<longrightarrow>
        status (fst (handleRequest P request)) = 403
      \<and> resp_headers (fst (handleRequest P request)) = [(''Content-Type'', ''application/json'')])"
proof (intro conjI allI impI)
  fix origin
  assume a: "headers request ''Origin'' = Some origin \<and> origin \<in> set ALLOWED_ORIGINS"
  then obtain rest where r: "resp_headers (fst (handleRequest P request)) = corsHeaders origin @ rest"
    using cors_allowed by blast
  show "header (fst (handleRequest P request)) ''Access-Control-Allow-Origin'' = Some origin"
    unfolding header_def r by (rule cors_lookup)
  show "header (fst (handleRequest P request)) ''Access-Control-Allow-Methods'' = Some ''GET, POST, OPTIONS''"
    unfolding header_def r by (rule cors_lookup)
  show "header (fst (handleRequest P request)) ''Access-Control-Allow-Headers'' = Some ''Content-Type, X-Requested-With''"
    unfolding header_def r by (rule cors_lookup)
  show "header (fst (handleRequest P request)) ''Access-Control-Max-Age'' = Some ''86400''"
    unfolding header_def r by (rule cors_lookup)
next
  assume "\<not> origin_allowed request"
  then show "status (fst (handleRequest P request)) = 403"
    by (simp add: handleRequest_rejected forbidden_def)
next
  assume "\<not> origin_allowed request"
  then show "resp_headers (fst (handleRequest P request)) = [(''Content-Type'', ''application/json'')]"
    by (simp add: handleRequest_rejected forbidden_def content_type_json_def)
qed

text \<open>C2 on a POST from the allowed origin and on a request from a foreign origin.\<close>

theorem cors_headers_on_accepted_origin_witness:
  "headers (post_request None (Some ''text/plain'') ''hello'') ''Origin''
      = Some ''https://djamchid.github.io''
   \<and> ''https://djamchid.github.io'' \<in> set ALLOWED_ORIGINS
   \<and> header (fst (handleRequest (example_platform always_ok)
                     (post_request None (Some ''text/plain'') ''hello'')))
        ''Access-Control-Allow-Origin'' = Some ''https://djamchid.github.io''
   \<and> \<not> origin_allowed foreign_request
   \<and> resp_headers (fst (handleRequest (example_platform always_ok) foreign_request))
        = [(''Content-Type'', ''application/json'')]"
proof -
  have o: "headers (post_request None (Some ''text/plain'') ''hello'') ''Origin''
             = Some ''https://djamchid.github.io''"
    by (simp add: post_request_def)
  have al: "''https://djamchid.github.io'' \<in> set ALLOWED_ORIGINS"
    by (simp add: ALLOWED_ORIGINS_def)
  have nf: "\<not> origin_allowed foreign_request"
    by (simp add: origin_allowed_def foreign_request_def ALLOWED_ORIGINS_def)
  show ?thesis
    using cors_headers_on_accepted_origin
            [of "post_request None (Some ''text/plain'') ''hello''" "example_platform always_ok"]
          cors_headers_on_accepted_origin [of foreign_request "example_platform always_ok"]
          o al nf
    by blast
qed

text \<open>
  Claim C2 as stated fails: the 403 response to a request from \<^verbatim>\<open>https://evil.example\<close>
  has none of the four CORS headers.
\<close>

theorem forbidden_response_has_no_cors_header:
  "status (fst (handleRequest (example_platform always_ok) foreign_request)) = 403
   \<and> header (fst (handleRequest (example_platform always_ok) foreign_request))
        ''Access-Control-Allow-Origin'' = None
   \<and> header (fst (handleRequest (example_platform always_ok) foreign_request))
        ''Access-Control-Allow-Methods'' = None
   \<and> header (fst (handleRequest (example_platform always_ok) foreign_request))
        ''Access-Control-Allow-Headers'' = None
   \<and> header (fst (handleRequest (example_platform always_ok) foreign_request))
        ''Access-Control-Max-Age'' = None"
  by (simp add: handleRequest_def foreign_request_def ALLOWED_ORIGINS_def forbidden_def
      header_def content_type_json_def)

text \<open>
  Claim C5, as the code has it. For a POST from an allowed origin whose
  \<^verbatim>\<open>Content-Length\<close> header is \<open>h\<close> and \<^verbatim>\<open>parseInt(h)\<close> is \<open>n\<close>: when \<open>n\<close> exceeds 1048576 the response has status 413
  and the run has no effect (the body is not read, the upstream is not called); when
  \<open>n\<close> is at most 1048576 the guard is passed and the first thing the run does is read
  the body.
\<close>

theorem payload_guard_413:
  assumes "origin_allowed request" and "req_method request = ''POST''"
    and "headers request ''Content-Length'' = Some h" and "parseInt h = Some n"
  shows "(n > 1048576 \<longrightarrow>
            status (fst (handleRequest P request)) = 413
          \<and> snd (handleRequest P request) = []
          \<and> upstream_calls (snd (handleRequest P request)) = [])
       \<and> (n \<le> 1048576 \<longrightarrow> (\<exists>rest. snd (handleRequest P request) = BodyRead # rest))"
proof -
  from assms(1) obtain origin where
    o: "headers request ''Origin'' = Some origin" "origin \<in> set ALLOWED_ORIGINS"
    using origin_allowedD by blast
  have hp: "handleRequest P request = handlePost P origin request"
    using o assms(2) by (rule handleRequest_post)
  have tl: "too_large request = (n > 1048576)"
    using assms(3,4) by (rule too_large_declared)
  show ?thesis
  proof (cases "n > 1048576")
    case True
    then show ?thesis
      by (simp add: hp tl handlePost_too_large error_response_def upstream_calls_def)
  next
    case False
    then show ?thesis
      by (simp add: hp tl handlePost_passes)
  qed
qed

text \<open>C5 on a declared length of 2000000 and on a declared length of exactly 1048576.\<close>

theorem payload_guard_413_witness:
  "origin_allowed (post_request (Some ''2000000'') (Some ''application/json'') ''{}'')
   \<and> parseInt ''2000000'' = Some 2000000
   \<and> status (fst (handleRequest (example_platform always_ok)
                     (post_request (Some ''2000000'') (Some ''application/json'') ''{}''))) = 413
   \<and> snd (handleRequest (example_platform always_ok)
             (post_request (Some ''2000000'') (Some ''application/json'') ''{}'')) = []
   \<and> origin_allowed (post_request (Some ''1048576'') (Some ''text/plain'') ''hello'')
   \<and> parseInt ''1048576'' = Some 1048576
   \<and> (\<exists>rest. snd (handleRequest (example_platform always_ok)
                     (post_request (Some ''1048576'') (Some ''text/plain'') ''hello''))
        = BodyRead # rest)"
proof -
  have a: "origin_allowed (post_request cl ct b)" for cl ct b
    by (simp add: origin_allowed_def post_request_def ALLOWED_ORIGINS_def)
  have m: "req_method (post_request cl ct b) = ''POST''" for cl ct b
    by (simp add: post_request_def)
  have h: "headers (post_request (Some cl) ct b) ''Content-Length'' = Some cl" for cl ct b
    by (simp add: post_request_def)
  have p1: "parseInt ''2000000'' = Some 2000000"
    by (simp add: parseInt_def is_ws_def digit_val_def)
  have p2: "parseInt ''1048576'' = Some 1048576"
    by (simp add: parseInt_def is_ws_def digit_val_def)
  show ?thesis
    using payload_guard_413
            [where request = "post_request (Some ''2000000'') (Some ''application/json'') ''{}''"
               and P = "example_platform always_ok", OF a m h p1]
          payload_guard_413
            [where request = "post_request (Some ''1048576'') (Some ''text/plain'') ''hello''"
               and P = "example_platform always_ok", OF a m h p2]
    by (simp add: a p1 p2)
qed

text \<open>
  Claim C5 as stated fails: a POST from \<^verbatim>\<open>https://evil.example\<close> that declares a
  \<^verbatim>\<open>Content-Length\<close> of 2000000 is answered 403 by the origin check, not 413.
\<close>

theorem oversized_post_from_foreign_origin_gets_403:
  "req_method (foreign_post (Some ''2000000'') (Some ''application/json'') ''{}'') = ''POST''
   \<and> headers (foreign_post (Some ''2000000'') (Some ''application/json'') ''{}'')
        ''Content-Length'' = Some ''2000000''
   \<and> parseInt ''2000000'' = Some 2000000
   \<and> (2000000 :: int) > 1048576
   \<and> status (fst (handleRequest (example_platform always_ok)
                     (foreign_post (Some ''2000000'') (Some ''application/json'') ''{}'')))
       = 403
   \<and> status (fst (handleRequest (example_platform always_ok)
                     (foreign_post (Some ''2000000'') (Some ''application/json'') ''{}'')))
       \<noteq> 413"
  by (simp add: handleRequest_def foreign_post_def ALLOWED_ORIGINS_def forbidden_def
      parseInt_def is_ws_def digit_val_def)

text \<open>
  Claim C10, as the code has it. For a POST from an allowed origin: when the
  \<^verbatim>\<open>Content-Length\<close> header is absent, or \<^verbatim>\<open>parseInt\<close> of it is \<^verbatim>\<open>NaN\<close>, the guard is passed and the run goes on to
  read the body, whatever the body is; the 413 branch (status 413 with no effect) is
  taken exactly when \<^verbatim>\<open>parseInt(header || '0')\<close> is a number above 1048576; and an absent
  header counts as 0.
\<close>

theorem payload_guard_unparsable_length:
  assumes "origin_allowed request" and "req_method request = ''POST''"
  shows "(headers request ''Content-Length'' = None
            \<or> parseInt (or_else (headers request ''Content-Length'') ''0'') = None
          \<longrightarrow> (\<exists>rest. snd (handleRequest P request) = BodyRead # rest))
       \<and> ((status (fst (handleRequest P request)) = 413 \<and> snd (handleRequest P request) = [])
            \<longleftrightarrow> (\<exists>n. parseInt (or_else (headers request ''Content-Length'') ''0'') = Some n
                      \<and> n > 1048576))
       \<and> (headers request ''Content-Length'' = None
            \<longrightarrow> parseInt (or_else (headers request ''Content-Length'') ''0'') = Some 0)"
proof -
  from assms(1) obtain origin where
    o: "headers request ''Origin'' = Some origin" "origin \<in> set ALLOWED_ORIGINS"
    using origin_allowedD by blast
  have hp: "handleRequest P request = handlePost P origin request"
    using o assms(2) by (rule handleRequest_post)
  have zero: "parseInt ''0'' = Some 0"
    by (simp add: parseInt_def is_ws_def digit_val_def)
  have tl: "too_large request
              \<longleftrightarrow> (\<exists>n. parseInt (or_else (headers request ''Content-Length'') ''0'') = Some n
                        \<and> n > 1048576)"
    by (simp add: too_large_def MAX_PAYLOAD_SIZE_def split: option.splits)
  have absent: "headers request ''Content-Length'' = None \<Longrightarrow> \<not> too_large request"
    by (simp add: too_large_def zero MAX_PAYLOAD_SIZE_def)
  have nan: "parseInt (or_else (headers request ''Content-Length'') ''0'') = None
               \<Longrightarrow> \<not> too_large request"
    by (simp add: too_large_def)
  have branch: "(status (fst (handlePost P origin request)) = 413
                  \<and> snd (handlePost P origin request) = []) \<longleftrightarrow> too_large request"
    by (simp add: handlePost_def Let_def error_response_def case_prod_beta split: option.splits)
  have passes: "\<not> too_large request \<Longrightarrow> \<exists>rest. snd (handleRequest P request) = BodyRead # rest"
    unfolding hp by (rule handlePost_passes)
  have iff: "(status (fst (handleRequest P request)) = 413 \<and> snd (handleRequest P request) = [])
            \<longleftrightarrow> (\<exists>n. parseInt (or_else (headers request ''Content-Length'') ''0'') = Some n
                      \<and> n > 1048576)"
    unfolding hp branch tl ..
  have as_zero: "headers request ''Content-Length'' = None
                   \<Longrightarrow> parseInt (or_else (headers request ''Content-Length'') ''0'') = Some 0"
    by (simp add: zero)
  show ?thesis
    using absent nan passes iff as_zero by blast
qed

text \<open>C10 on a POST without \<^verbatim>\<open>Content-Length\<close> and on one that declares \<^verbatim>\<open>abc\<close>.\<close>

theorem payload_guard_unparsable_length_witness:
  "origin_allowed (post_request None (Some ''text/plain'') ''hello'')
   \<and> headers (post_request None (Some ''text/plain'') ''hello'') ''Content-Length'' = None
   \<and> (\<exists>rest. snd (handleRequest (example_platform always_ok)
                     (post_request None (Some ''text/plain'') ''hello'')) = BodyRead # rest)
   \<and> parseInt (or_else (headers (post_request (Some ''abc'') (Some ''text/plain'') ''hello'')
                           ''Content-Length'') ''0'') = None
   \<and> (\<exists>rest. snd (handleRequest (example_platform always_ok)
                     (post_request (Some ''abc'') (Some ''text/plain'') ''hello'')) = BodyRead # rest)"
proof -
  have a: "origin_allowed (post_request cl ct b)" for cl ct b
    by (simp add: origin_allowed_def post_request_def ALLOWED_ORIGINS_def)
  have m: "req_method (post_request cl ct b) = ''POST''" for cl ct b
    by (simp add: post_request_def)
  have h: "headers (post_request cl ct b) ''Content-Length'' = cl" for cl ct b
    by (simp add: post_request_def)
  have p: "parseInt ''abc'' = None"
    by (simp add: parseInt_def is_ws_def digit_val_def)
  show ?thesis
    using payload_guard_unparsable_length
            [where request = "post_request None (Some ''text/plain'') ''hello''"
               and P = "example_platform always_ok", OF a m]
          payload_guard_unparsable_length
            [where request = "post_request (Some ''abc'') (Some ''text/plain'') ''hello''"
               and P = "example_platform always_ok", OF a m]
    by (simp add: a h p)
qed

text \<open>
  Claim C10 as stated fails. A POST from \<^verbatim>\<open>https://evil.example\<close> without
  \<^verbatim>\<open>Content-Length\<close> does not proceed to body handling: the run reads nothing and answers
  403. One that declares 3000000, for which \<^verbatim>\<open>parseInt\<close> exceeds 1048576, does not take
  the 413 branch: it is answered 403 as well.
\<close>

theorem foreign_post_never_reaches_size_guard:
  "req_method (foreign_post None (Some ''text/plain'') ''hello'') = ''POST''
   \<and> headers (foreign_post None (Some ''text/plain'') ''hello'') ''Content-Length'' = None
   \<and> snd (handleRequest (example_platform always_ok)
             (foreign_post None (Some ''text/plain'') ''hello'')) = []
   \<and> status (fst (handleRequest (example_platform always_ok)
                     (foreign_post None (Some ''text/plain'') ''hello''))) = 403
   \<and> req_method (foreign_post (Some ''3000000'') (Some ''text/plain'') ''hello'') = ''POST''
   \<and> parseInt (or_else (headers (foreign_post (Some ''3000000'') (Some ''text/plain'') ''hello'')
                           ''Content-Length'') ''0'') = Some 3000000
   \<and> (3000000 :: int) > 1048576
   \<and> status (fst (handleRequest (example_platform always_ok)
                     (foreign_post (Some ''3000000'') (Some ''text/plain'') ''hello''))) \<noteq> 413"
  by (simp add: handleRequest_def foreign_post_def ALLOWED_ORIGINS_def forbidden_def
      parseInt_def is_ws_def digit_val_def)




section \<open>Properties of the browser client\<close>

lemma update_token_frame [simp]:
  "objects (update_token rd w) = objects w"
  "calls (update_token rd w) = calls w"
  "isInitialized (update_token rd w) = isInitialized w"
  "signals (update_token rd w) = signals w"
  by (simp_all add: update_token_def split: option.splits)

lemma on_answer_frame [simp]:
  "objects (snd (on_answer P w a)) = objects w"
  "calls (snd (on_answer P w a)) = calls w"
  "isInitialized (snd (on_answer P w a)) = isInitialized w"
  "signals (snd (on_answer P w a)) = signals w"
  by (simp_all add: on_answer_def Let_def split: fetch_result.splits option.splits)

lemma inject_frame [simp]:
  "csrfToken (inject P w meth data) = csrfToken w"
  "calls (inject P w meth data) = calls w"
  "isInitialized (inject P w meth data) = isInitialized w"
  "signals (inject P w meth data) = signals w"
  "lastError (inject P w meth data) = lastError w"
  by (simp_all add: inject_def split: option.splits)

lemma inject_None [simp]: "inject P w meth None = w"
  by (simp add: inject_def)

lemma makeRequest_snd:
  "snd (makeRequest P w meth params data) =
     (let call = request_for P w meth params data;
          w2 = (inject P w meth data)\<lparr>calls := calls w @ [call]\<rparr>;
          r = on_answer P w2 (fetch P (length (calls w)) call)
      in case fst r of
           Inl error \<Rightarrow> (snd r)\<lparr>lastError := JStr (message_or P error ''Erreur de communication'')\<rparr>
         | Inr responseData \<Rightarrow> snd r)"
  by (simp add: makeRequest_def Let_def split: prod.splits sum.splits)

lemma makeRequest_fst:
  "fst (makeRequest P w meth params data) =
     fst (on_answer P ((inject P w meth data)\<lparr>calls := calls w @ [request_for P w meth params data]\<rparr>)
            (fetch P (length (calls w)) (request_for P w meth params data)))"
  by (simp add: makeRequest_def Let_def split: prod.splits sum.splits)

lemma makeRequest_calls:
  "calls (snd (makeRequest P w meth params data)) = calls w @ [request_for P w meth params data]"
  by (simp add: makeRequest_snd Let_def split: sum.splits)

lemma makeRequest_objects:
  "objects (snd (makeRequest P w meth params data)) = objects (inject P w meth data)"
  by (simp add: makeRequest_snd Let_def split: sum.splits)

lemma on_answer_parsed:
  assumes "200 \<le> st" "st \<le> 299" "JSON_parse P payload = Some rd" "rd \<noteq> JNull"
  shows "csrfToken (snd (on_answer P w (Responded st st_text payload))) = csrfToken (update_token rd w)"
    and "fst (on_answer P w (Responded st st_text payload)) =
           (if get_prop rd ''result'' = Some (JStr ''error'')
            then Inl (Error (to_string (case truthy_prop rd ''error'' of
                                          Some v \<Rightarrow> v | None \<Rightarrow> JStr ''Erreur inconnue'')))
            else Inr rd)"
  using assms by (simp_all add: on_answer_def Let_def)

lemma update_token_set [simp]:
  "update_token rd (w\<lparr>calls := cs\<rparr>) = (update_token rd w)\<lparr>calls := cs\<rparr>"
  by (simp add: update_token_def split: option.splits)

lemma makeRequest_parsed:
  assumes "fetch P (length (calls w)) (request_for P w meth params data) = Responded st st_text payload"
    and "200 \<le> st" "st \<le> 299" "JSON_parse P payload = Some rd" "rd \<noteq> JNull"
  shows "csrfToken (snd (makeRequest P w meth params data))
           = csrfToken (update_token rd (inject P w meth data))"
    and "fst (makeRequest P w meth params data) =
           (if get_prop rd ''result'' = Some (JStr ''error'')
            then Inl (Error (to_string (case truthy_prop rd ''error'' of
                                          Some v \<Rightarrow> v | None \<Rightarrow> JStr ''Erreur inconnue'')))
            else Inr rd)"
proof -
  let ?w2 = "(inject P w meth data)\<lparr>calls := calls w @ [request_for P w meth params data]\<rparr>"
  have t: "csrfToken (snd (on_answer P ?w2 (Responded st st_text payload)))
             = csrfToken (update_token rd ?w2)"
    using assms(2-5) by (rule on_answer_parsed(1))
  show "csrfToken (snd (makeRequest P w meth params data))
           = csrfToken (update_token rd (inject P w meth data))"
    using t by (simp add: makeRequest_snd assms(1) Let_def split: sum.splits)
  show "fst (makeRequest P w meth params data) =
           (if get_prop rd ''result'' = Some (JStr ''error'')
            then Inl (Error (to_string (case truthy_prop rd ''error'' of
                                          Some v \<Rightarrow> v | None \<Rightarrow> JStr ''Erreur inconnue'')))
            else Inr rd)"
    unfolding makeRequest_fst assms(1) using assms(2-5) by (rule on_answer_parsed(2))
qed

lemma token_update_token:
  "csrfToken (update_token rd w) =
     (case truthy_prop rd ''newCsrfToken'' of
        Some t \<Rightarrow> t
      | None \<Rightarrow> (case truthy_prop rd ''csrfToken'' of Some t \<Rightarrow> t | None \<Rightarrow> csrfToken w))"
  by (simp add: update_token_def split: option.splits)

lemma example_fetch [simp]: "fetch (example_platform net) = net"
  by (simp add: example_platform_def)

lemma example_parse [simp]: "JSON_parse (example_platform net) = map_of json_texts"
  by (simp add: example_platform_def)

lemma example_origin [simp]: "page_origin (example_platform net) = ''https://djamchid.github.io''"
  by (simp add: example_platform_def)

lemma truthy_prop_object: "truthy_prop rd k = Some t \<Longrightarrow> truthy rd"
  by (cases rd) (simp_all add: truthy_prop_def)

lemma truthy_prop_iff:
  "truthy_prop rd k = Some t \<longleftrightarrow> get_prop rd k = Some t \<and> truthy t"
  "truthy_prop rd k = None \<longleftrightarrow> \<not> truthy_opt (get_prop rd k)"
  by (auto simp: truthy_prop_def split: option.splits)

lemma refreshCsrfToken_returned:
  assumes "makeRequest P w ''GET'' (refresh_params P) None = (Inr response, w1)"
  shows "truthy_prop response ''csrfToken'' = Some t \<Longrightarrow>
           refreshCsrfToken P w = (Inr True, w1\<lparr>csrfToken := t\<rparr>)"
    and "truthy_prop response ''csrfToken'' = None \<Longrightarrow>
           refreshCsrfToken P w =
             (Inl (Error msg_no_token),
              w1\<lparr>lastError := JStr (msg_refresh_prefix
                                      @ message_or P (Error msg_no_token) ''Erreur inconnue'')\<rparr>)"
  using assms by (simp_all add: refreshCsrfToken_def truthy_prop_object)

lemma map_of_set_prop_same [simp]: "map_of (set_prop ps k v) k = Some v"
  by (induction ps) auto

lemma map_of_set_prop_other [simp]: "k' \<noteq> k \<Longrightarrow> map_of (set_prop ps k v) k' = map_of ps k'"
  by (induction ps) auto

lemma includes_str_iff: "includes_str s sub \<longleftrightarrow> (\<exists>a b. s = a @ sub @ b)"
proof (induction s)
  case Nil
  then show ?case by auto
next
  case (Cons c cs)
  show ?case
  proof
    assume "includes_str (c # cs) sub"
    then consider "take (length sub) (c # cs) = sub" | "includes_str cs sub" by auto
    then show "\<exists>a b. c # cs = a @ sub @ b"
    proof cases
      case 1
      then have "c # cs = [] @ sub @ drop (length sub) (c # cs)"
        by (metis append_Nil append_take_drop_id)
      then show ?thesis by blast
    next
      case 2
      then obtain a b where "cs = a @ sub @ b" using Cons.IH by blast
      then have "c # cs = (c # a) @ sub @ b" by simp
      then show ?thesis by blast
    qed
  next
    assume "\<exists>a b. c # cs = a @ sub @ b"
    then obtain a b where ab: "c # cs = a @ sub @ b" by blast
    show "includes_str (c # cs) sub"
    proof (cases a)
      case Nil
      then have "take (length sub) (c # cs) = sub" using ab by simp
      then show ?thesis by simp
    next
      case (Cons x xs)
      then have "cs = xs @ sub @ b" using ab by simp
      then have "includes_str cs sub" using Cons.IH by blast
      then show ?thesis by simp
    qed
  qed
qed

lemma join_contains: "x \<in> set xs \<Longrightarrow> \<exists>a b. join sep xs = a @ x @ b"
proof (induction sep xs rule: join.induct)
  case (1 sep)
  then show ?case by simp
next
  case (2 sep y)
  then have "join sep [y] = [] @ x @ []" by simp
  then show ?case by blast
next
  case (3 sep y z zs)
  show ?case
  proof (cases "x = y")
    case True
    then have "join sep (y # z # zs) = [] @ x @ (sep @ join sep (z # zs))" by simp
    then show ?thesis by blast
  next
    case False
    then have "x \<in> set (z # zs)" using 3(2) by simp
    then obtain a b where "join sep (z # zs) = a @ x @ b" using 3(1) by blast
    then have "join sep (y # z # zs) = (y @ sep @ a) @ x @ b" by simp
    then show ?thesis by blast
  qed
qed

lemma msg_missing_names: "x \<in> set names \<Longrightarrow> includes_str (msg_missing names) x"
proof -
  assume "x \<in> set names"
  then obtain a b where "join '', '' names = a @ x @ b" using join_contains by blast
  then have "msg_missing names = (''Champs obligatoires manquants: '' @ a) @ x @ b"
    by (simp add: msg_missing_def)
  then show ?thesis unfolding includes_str_iff by blast
qed

text \<open>
  The two matchers agree with their regular expressions read as patterns: an address is
  three non-empty runs of the class \<^verbatim>\<open>[^\s@]\<close> separated by \<^verbatim>\<open>@\<close> and by a dot, a phone
  number is ten decimal digits.
\<close>

lemma in_class_dot: "in_class CHR ''.''"
  by (simp add: in_class_def is_ws_def)

lemma not_in_class_at: "\<not> in_class CHR ''@''"
  by (simp add: in_class_def)

lemma inner_dot_iff:
  "CHR ''.'' \<in> set (butlast (tl t)) \<longleftrightarrow> (\<exists>b c. t = b @ ''.'' @ c \<and> b \<noteq> [] \<and> c \<noteq> [])"
proof
  assume "CHR ''.'' \<in> set (butlast (tl t))"
  then obtain p q where pq: "butlast (tl t) = p @ CHR ''.'' # q"
    by (meson split_list)
  then have ne: "tl t \<noteq> []" by auto
  then have "t \<noteq> []" by auto
  then have t: "t = hd t # tl t" by simp
  have "tl t = butlast (tl t) @ [last (tl t)]" using ne by simp
  then have "t = [hd t] @ p @ ''.'' @ (q @ [last (tl t)])"
    using t pq by (metis append_Cons append_Nil append_assoc)
  then have "t = ([hd t] @ p) @ ''.'' @ (q @ [last (tl t)])" by simp
  then show "\<exists>b c. t = b @ ''.'' @ c \<and> b \<noteq> [] \<and> c \<noteq> []"
    by blast
next
  assume "\<exists>b c. t = b @ ''.'' @ c \<and> b \<noteq> [] \<and> c \<noteq> []"
  then obtain b c where bc: "t = b @ ''.'' @ c" "b \<noteq> []" "c \<noteq> []" by blast
  then have "tl t = tl b @ ''.'' @ c" by simp
  then have "butlast (tl t) = tl b @ ''.'' @ butlast c"
    using bc(3) by (simp add: butlast_append)
  then show "CHR ''.'' \<in> set (butlast (tl t))" by simp
qed

lemma emailRegex_iff:
  "emailRegex s \<longleftrightarrow>
     (\<exists>a b c. s = a @ ''@'' @ b @ ''.'' @ c \<and> a \<noteq> [] \<and> b \<noteq> [] \<and> c \<noteq> []
              \<and> list_all in_class a \<and> list_all in_class b \<and> list_all in_class c)"
proof
  assume e: "emailRegex s"
  let ?a = "takeWhile in_class s"
  from e have a: "?a \<noteq> []" by (simp add: emailRegex_def)
  from e obtain t where d: "dropWhile in_class s = CHR ''@'' # t"
    and t: "list_all in_class t" "CHR ''.'' \<in> set (butlast (tl t))"
    by (auto simp: emailRegex_def split: list.splits)
  from t(2) obtain b c where bc: "t = b @ ''.'' @ c" "b \<noteq> []" "c \<noteq> []"
    using inner_dot_iff by blast
  have "s = ?a @ dropWhile in_class s" by simp
  then have s: "s = ?a @ ''@'' @ b @ ''.'' @ c" using d bc(1) by simp
  have "list_all in_class ?a" by (simp add: list_all_iff) (meson set_takeWhileD)
  moreover have "list_all in_class b" "list_all in_class c"
    using t(1) bc(1) by (simp_all add: list_all_iff)
  ultimately show "\<exists>a b c. s = a @ ''@'' @ b @ ''.'' @ c \<and> a \<noteq> [] \<and> b \<noteq> [] \<and> c \<noteq> []
              \<and> list_all in_class a \<and> list_all in_class b \<and> list_all in_class c"
    using s a bc(2,3) by blast
next
  assume "\<exists>a b c. s = a @ ''@'' @ b @ ''.'' @ c \<and> a \<noteq> [] \<and> b \<noteq> [] \<and> c \<noteq> []
              \<and> list_all in_class a \<and> list_all in_class b \<and> list_all in_class c"
  then obtain a b c where s: "s = a @ ''@'' @ b @ ''.'' @ c"
    and ne: "a \<noteq> []" "b \<noteq> []" "c \<noteq> []"
    and cl: "list_all in_class a" "list_all in_class b" "list_all in_class c"
    by blast
  have s': "s = a @ CHR ''@'' # (b @ ''.'' @ c)" using s by simp
  have all_a: "\<forall>x\<in>set a. in_class x" using cl(1) by (simp add: list_all_iff)
  have tw: "takeWhile in_class s = a"
    unfolding s' using all_a not_in_class_at by (simp add: takeWhile_append2)
  have dw: "dropWhile in_class s = CHR ''@'' # (b @ ''.'' @ c)"
    unfolding s' using all_a not_in_class_at by (simp add: dropWhile_append2)
  have "list_all in_class (b @ ''.'' @ c)"
    using cl(2,3) in_class_dot by simp
  moreover have "CHR ''.'' \<in> set (butlast (tl (b @ ''.'' @ c)))"
    using ne(2,3) inner_dot_iff by blast
  ultimately show "emailRegex s"
    using ne(1) by (simp add: emailRegex_def tw dw)
qed

lemma phoneRegex_iff:
  "phoneRegex s \<longleftrightarrow> length s = 10 \<and> (\<forall>c\<in>set s. c \<in> set ''0123456789'')"
proof -
  have "digit_val 10 c \<noteq> None \<longleftrightarrow> c \<in> set ''0123456789''" for c
  proof (cases c)
    case (Char b0 b1 b2 b3 b4 b5 b6 b7)
    then show ?thesis
      by (cases b0; cases b1; cases b2; cases b3; cases b4; cases b5; cases b6; cases b7)
         (simp_all add: digit_val_def)
  qed
  then show ?thesis by (simp add: phoneRegex_def list_all_iff)
qed

lemma message_Error [simp]: "message P (Error m) = m"
  by (simp add: message_def)

lemma example_form_valid: "validateFormData (Some example_form) = Inr True"
  by (simp add: validateFormData_def example_form_def missingFields_def requiredFields_def
      emailRegex_def in_class_def is_ws_def validCategories_def out_of_range_def parseInt_def
      digit_val_def check_telephone_def truthy_prop_def)

text \<open>
  The retry of lines 210-215 is reached when \<^verbatim>\<open>makeRequest\<close> returns a body, which it
  does only for a body whose \<^verbatim>\<open>result\<close> is not \<^verbatim>\<open>"error"\<close>. Then a body whose \<^verbatim>\<open>error\<close>
  contains the marker leads to one refresh and, when the refresh succeeds, one resubmission
  of the same object, whose outcome is the outcome of \<^verbatim>\<open>submitContribution\<close>.
\<close>

lemma refreshCsrfToken_calls:
  "calls (snd (refreshCsrfToken P w))
     = calls w @ [request_for P w ''GET'' (refresh_params P) None]"
proof -
  obtain r w1 where mr: "makeRequest P w ''GET'' (refresh_params P) None = (r, w1)"
    by (cases "makeRequest P w ''GET'' (refresh_params P) None")
  have "calls w1 = calls w @ [request_for P w ''GET'' (refresh_params P) None]"
    using makeRequest_calls [of P w "''GET''" "refresh_params P" None] mr by simp
  then show ?thesis
    by (simp add: refreshCsrfToken_def mr split: sum.splits option.splits)
qed

lemma submitContribution_retry_path:
  assumes "isInitialized w"
    and "validateFormData (map_option (objects w) formData) = Inr valid"
    and "makeRequest P w ''POST'' [] formData = (Inr response, w1)"
    and "error_has_marker response = Inr True"
    and "refreshCsrfToken P w1 = (Inr ok, w2)"
  shows "submitContribution P w formData = makeRequest P w2 ''POST'' [] formData"
    and "calls (snd (submitContribution P w formData))
           = calls w @ [request_for P w ''POST'' [] formData,
                        request_for P w1 ''GET'' (refresh_params P) None,
                        request_for P w2 ''POST'' [] formData]"
proof -
  show s: "submitContribution P w formData = makeRequest P w2 ''POST'' [] formData"
    using assms
    by (cases "makeRequest P w2 ''POST'' [] formData")
       (simp add: submitContribution_def submit_try_def)
  have c1: "calls w1 = calls w @ [request_for P w ''POST'' [] formData]"
    using makeRequest_calls [of P w "''POST''" "[]" formData] assms(3) by simp
  have c2: "calls w2 = calls w1 @ [request_for P w1 ''GET'' (refresh_params P) None]"
    using refreshCsrfToken_calls [of P w1] assms(5) by simp
  show "calls (snd (submitContribution P w formData))
           = calls w @ [request_for P w ''POST'' [] formData,
                        request_for P w1 ''GET'' (refresh_params P) None,
                        request_for P w2 ''POST'' [] formData]"
    unfolding s by (simp add: makeRequest_calls c1 c2)
qed

text \<open>
  Claim C7, as the code has it. When the answer to a \<^verbatim>\<open>makeRequest\<close> call has a 2xx
  status and a body that parses: a \<^verbatim>\<open>newCsrfToken\<close> that is truthy becomes the held
  token, whether or not \<^verbatim>\<open>csrfToken\<close> is there as well; when \<^verbatim>\<open>newCsrfToken\<close> is absent or
  falsy, a truthy \<^verbatim>\<open>csrfToken\<close> becomes the held token.
\<close>

theorem makeRequest_token_priority:
  assumes "fetch P (length (calls w)) (request_for P w meth params data) = Responded st st_text payload"
    and "200 \<le> st" "st \<le> 299" "JSON_parse P payload = Some responseData"
  shows "(\<forall>t. get_prop responseData ''newCsrfToken'' = Some t \<and> truthy t \<longrightarrow>
            csrfToken (snd (makeRequest P w meth params data)) = t)
       \<and> (\<forall>t. \<not> truthy_opt (get_prop responseData ''newCsrfToken'')
              \<and> get_prop responseData ''csrfToken'' = Some t \<and> truthy t \<longrightarrow>
            csrfToken (snd (makeRequest P w meth params data)) = t)"
proof (cases "responseData = JNull")
  case True
  then show ?thesis by simp
next
  case False
  have "csrfToken (snd (makeRequest P w meth params data))
          = csrfToken (update_token responseData (inject P w meth data))"
    using assms False by (rule makeRequest_parsed(1))
  then show ?thesis
    by (auto simp: token_update_token truthy_prop_def split: option.splits)
qed

text \<open>C7 on a body with both fields and on a body with \<^verbatim>\<open>csrfToken\<close> only.\<close>

theorem makeRequest_token_priority_witness:
  \<open>get_prop (JObj [(''newCsrfToken'', JStr ''n2''), (''csrfToken'', JStr ''t1'')]) ''newCsrfToken''
       = Some (JStr ''n2'')
   \<and> truthy (JStr ''n2'')
   \<and> csrfToken (snd (makeRequest (example_platform (answering ''{"newCsrfToken":"n2","csrfToken":"t1"}''))
                        ready_world ''GET'' [] None)) = JStr ''n2''
   \<and> \<not> truthy_opt (get_prop (JObj [(''csrfToken'', JStr ''t1'')]) ''newCsrfToken'')
   \<and> csrfToken (snd (makeRequest (example_platform (answering ''{"csrfToken":"t1"}''))
                        ready_world ''GET'' [] None)) = JStr ''t1''\<close>
proof -
  have p1: \<open>JSON_parse (example_platform (answering ''{"newCsrfToken":"n2","csrfToken":"t1"}''))
                ''{"newCsrfToken":"n2","csrfToken":"t1"}''
              = Some (JObj [(''newCsrfToken'', JStr ''n2''), (''csrfToken'', JStr ''t1'')])\<close>
    by (simp add: json_texts_def)
  have p2: \<open>JSON_parse (example_platform (answering ''{"csrfToken":"t1"}'')) ''{"csrfToken":"t1"}''
              = Some (JObj [(''csrfToken'', JStr ''t1'')])\<close>
    by (simp add: json_texts_def)
  have f: "fetch (example_platform (answering payload)) n c = Responded 200 ''OK'' payload"
    for payload n c
    by (simp add: answering_def)
  note a = makeRequest_token_priority [OF f _ _ p1, where w = ready_world and meth = "''GET''"
                                         and params = "[]" and data = None]
  note b = makeRequest_token_priority [OF f _ _ p2, where w = ready_world and meth = "''GET''"
                                         and params = "[]" and data = None]
  show ?thesis using a b by simp
qed

text \<open>
  Claim C7 as stated fails: the body \<^verbatim>\<open>{"newCsrfToken":"","csrfToken":"t1"}\<close> contains the
  field \<^verbatim>\<open>newCsrfToken\<close>, and the held token becomes the value of \<^verbatim>\<open>csrfToken\<close>, not
  the value of \<^verbatim>\<open>newCsrfToken\<close>.
\<close>

theorem makeRequest_skips_empty_newCsrfToken:
  \<open>JSON_parse (example_platform (answering ''{"newCsrfToken":"","csrfToken":"t1"}''))
       ''{"newCsrfToken":"","csrfToken":"t1"}''
     = Some (JObj [(''newCsrfToken'', JStr ''''), (''csrfToken'', JStr ''t1'')])
   \<and> get_prop (JObj [(''newCsrfToken'', JStr ''''), (''csrfToken'', JStr ''t1'')]) ''newCsrfToken''
       = Some (JStr '''')
   \<and> csrfToken (snd (makeRequest (example_platform (answering ''{"newCsrfToken":"","csrfToken":"t1"}''))
                        ready_world ''GET'' [] None)) = JStr ''t1''
   \<and> csrfToken (snd (makeRequest (example_platform (answering ''{"newCsrfToken":"","csrfToken":"t1"}''))
                        ready_world ''GET'' [] None)) \<noteq> JStr ''''\<close>
  by (simp add: makeRequest_def on_answer_def update_token_def truthy_prop_def request_for_def
      answering_def json_texts_def ready_world_def Let_def)

text \<open>
  Claim C3, as the code has it. Take a \<^verbatim>\<open>refreshCsrfToken\<close> call whose GET is answered
  with a 2xx status and a body that parses to a value other than \<^verbatim>\<open>null\<close> whose \<^verbatim>\<open>result\<close>
  is not \<^verbatim>\<open>"error"\<close>. Without a truthy \<^verbatim>\<open>csrfToken\<close> in the body the call fails with
  the missing-token error; the held token is then unchanged when the body has no truthy
  \<^verbatim>\<open>newCsrfToken\<close> either, and is that \<^verbatim>\<open>newCsrfToken\<close> otherwise (\<^verbatim>\<open>makeRequest\<close> has
  stored it). With a truthy \<^verbatim>\<open>csrfToken\<close> the call succeeds and the held token is its value.
\<close>

theorem refreshCsrfToken_outcome:
  assumes "fetch P (length (calls w)) (request_for P w ''GET'' (refresh_params P) None)
             = Responded st st_text payload"
    and "200 \<le> st" "st \<le> 299" "JSON_parse P payload = Some response" "response \<noteq> JNull"
    and "get_prop response ''result'' \<noteq> Some (JStr ''error'')"
  shows "(\<not> truthy_opt (get_prop response ''csrfToken'') \<longrightarrow>
            fst (refreshCsrfToken P w) = Inl (Error msg_no_token)
          \<and> (\<not> truthy_opt (get_prop response ''newCsrfToken'') \<longrightarrow>
                csrfToken (snd (refreshCsrfToken P w)) = csrfToken w)
          \<and> (\<forall>t. get_prop response ''newCsrfToken'' = Some t \<and> truthy t \<longrightarrow>
                csrfToken (snd (refreshCsrfToken P w)) = t))
       \<and> (\<forall>t. get_prop response ''csrfToken'' = Some t \<and> truthy t \<longrightarrow>
            fst (refreshCsrfToken P w) = Inr True
          \<and> csrfToken (snd (refreshCsrfToken P w)) = t)"
proof -
  obtain r w1 where mr: "makeRequest P w ''GET'' (refresh_params P) None = (r, w1)"
    by (cases "makeRequest P w ''GET'' (refresh_params P) None")
  have "fst (makeRequest P w ''GET'' (refresh_params P) None) = Inr response"
    using makeRequest_parsed(2) [OF assms(1-5)] assms(6) by simp
  then have r: "r = Inr response" using mr by simp
  have "csrfToken (snd (makeRequest P w ''GET'' (refresh_params P) None))
          = csrfToken (update_token response w)"
    using makeRequest_parsed(1) [OF assms(1-5)] by simp
  then have tok: "csrfToken w1 = csrfToken (update_token response w)" using mr by simp
  note ret = refreshCsrfToken_returned [OF mr [unfolded r]]
  show ?thesis
  proof (cases "truthy_prop response ''csrfToken''")
    case None
    then show ?thesis
      using ret(2) [OF None] tok
      by (auto simp: truthy_prop_iff token_update_token split: option.splits)
  next
    case (Some t)
    then show ?thesis
      using ret(1) [OF Some] by (auto simp: truthy_prop_iff)
  qed
qed

text \<open>C3 on the bodies \<^verbatim>\<open>{"result":"success"}\<close> and \<^verbatim>\<open>{"csrfToken":"t1"}\<close>, from the held
  token \<^verbatim>\<open>t0\<close>.\<close>

theorem refreshCsrfToken_outcome_witness:
  \<open>\<not> truthy_opt (get_prop (JObj [(''result'', JStr ''success'')]) ''csrfToken'')
   \<and> fst (refreshCsrfToken (example_platform (answering ''{"result":"success"}'')) ready_world)
        = Inl (Error msg_no_token)
   \<and> csrfToken (snd (refreshCsrfToken (example_platform (answering ''{"result":"success"}''))
                        ready_world)) = JStr ''t0''
   \<and> get_prop (JObj [(''csrfToken'', JStr ''t1'')]) ''csrfToken'' = Some (JStr ''t1'')
   \<and> truthy (JStr ''t1'')
   \<and> fst (refreshCsrfToken (example_platform (answering ''{"csrfToken":"t1"}'')) ready_world)
        = Inr True
   \<and> csrfToken (snd (refreshCsrfToken (example_platform (answering ''{"csrfToken":"t1"}''))
                        ready_world)) = JStr ''t1''\<close>
proof -
  have p1: \<open>JSON_parse (example_platform (answering ''{"result":"success"}'')) ''{"result":"success"}''
              = Some (JObj [(''result'', JStr ''success'')])\<close>
    by (simp add: json_texts_def)
  have p2: \<open>JSON_parse (example_platform (answering ''{"csrfToken":"t1"}'')) ''{"csrfToken":"t1"}''
              = Some (JObj [(''csrfToken'', JStr ''t1'')])\<close>
    by (simp add: json_texts_def)
  have f: "fetch (example_platform (answering payload)) n c = Responded 200 ''OK'' payload" for payload n c
    by (simp add: answering_def)
  have t0: "csrfToken ready_world = JStr ''t0''"
    by (simp add: ready_world_def)
  note a = refreshCsrfToken_outcome [OF f _ _ p1, where w = ready_world]
  note b = refreshCsrfToken_outcome [OF f _ _ p2, where w = ready_world]
  show ?thesis using a b by (simp add: t0)
qed

text \<open>
  Claim C3 as stated fails. The body \<^verbatim>\<open>{"newCsrfToken":"n2"}\<close> lacks \<^verbatim>\<open>csrfToken\<close>: the
  call fails with the missing-token error, and the held token has changed from \<^verbatim>\<open>t0\<close> to
  \<^verbatim>\<open>n2\<close>.
\<close>

theorem refreshCsrfToken_changes_token_on_failure:
  \<open>get_prop (JObj [(''newCsrfToken'', JStr ''n2'')]) ''csrfToken'' = None
   \<and> JSON_parse (example_platform (answering ''{"newCsrfToken":"n2"}'')) ''{"newCsrfToken":"n2"}''
        = Some (JObj [(''newCsrfToken'', JStr ''n2'')])
   \<and> csrfToken ready_world = JStr ''t0''
   \<and> fst (refreshCsrfToken (example_platform (answering ''{"newCsrfToken":"n2"}'')) ready_world)
        = Inl (Error msg_no_token)
   \<and> csrfToken (snd (refreshCsrfToken (example_platform (answering ''{"newCsrfToken":"n2"}''))
                        ready_world)) = JStr ''n2''\<close>
  by (simp add: refreshCsrfToken_def makeRequest_def on_answer_def update_token_def
      truthy_prop_def request_for_def answering_def json_texts_def ready_world_def Let_def)

text \<open>
  Two more bodies outside the statement above. \<^verbatim>\<open>{"csrfToken":""}\<close> has the field: the
  call fails with the missing-token error and the held token is not overwritten.
  \<^verbatim>\<open>{"result":"error","error":"jeton invalide"}\<close> lacks the field: the call fails with
  the upstream's message, not with the missing-token error.
\<close>

lemma refreshCsrfToken_empty_token_and_error_envelope:
  \<open>fst (refreshCsrfToken (example_platform (answering ''{"csrfToken":""}'')) ready_world)
        = Inl (Error msg_no_token)
   \<and> csrfToken (snd (refreshCsrfToken (example_platform (answering ''{"csrfToken":""}''))
                        ready_world)) = JStr ''t0''
   \<and> fst (refreshCsrfToken
             (example_platform (answering ''{"result":"error","error":"jeton invalide"}''))
             ready_world) = Inl (Error ''jeton invalide'')
   \<and> Error ''jeton invalide'' \<noteq> Error msg_no_token\<close>
  by (simp add: refreshCsrfToken_def makeRequest_def on_answer_def update_token_def
      truthy_prop_def request_for_def answering_def json_texts_def ready_world_def Let_def
      msg_no_token_def)

text \<open>
  Claim C9. A call \<^verbatim>\<open>makeRequest('POST', params, data)\<close> with a data object (reference
  \<open>r\<close>) writes into that object: after the call, however it ends, the object is the
  one before the call with \<^verbatim>\<open>csrfToken\<close> set to the token held at the call and \<^verbatim>\<open>origin\<close>
  set to the page origin; the body sent is the serialisation of the object so written;
  no other data object of the store is touched. (The \<^verbatim>\<open>params\<close> object, into which line
  91 writes \<^verbatim>\<open>origin\<close>, is a value here and not in the store.)
\<close>

theorem makeRequest_writes_into_callers_object:
  "objects (snd (makeRequest P w ''POST'' params (Some r))) r
     = set_prop (set_prop (objects w r) ''csrfToken'' (csrfToken w))
         ''origin'' (JStr (page_origin P))
   \<and> map_of (objects (snd (makeRequest P w ''POST'' params (Some r))) r) ''csrfToken''
       = Some (csrfToken w)
   \<and> map_of (objects (snd (makeRequest P w ''POST'' params (Some r))) r) ''origin''
       = Some (JStr (page_origin P))
   \<and> (\<exists>call. calls (snd (makeRequest P w ''POST'' params (Some r))) = calls w @ [call]
             \<and> req_body call
                 = Some (stringify (JObj (objects (snd (makeRequest P w ''POST'' params (Some r))) r))))
   \<and> (\<forall>r'. r' \<noteq> r \<longrightarrow>
         objects (snd (makeRequest P w ''POST'' params (Some r))) r' = objects w r')"
proof -
  let ?after = "snd (makeRequest P w ''POST'' params (Some r))"
  let ?call = "request_for P w ''POST'' params (Some r)"
  have kept: "objects ?after = objects (inject P w ''POST'' (Some r))"
    by (rule makeRequest_objects)
  have written: "objects ?after r
                   = set_prop (set_prop (objects w r) ''csrfToken'' (csrfToken w))
                       ''origin'' (JStr (page_origin P))"
    unfolding kept by (simp add: inject_def)
  have token: "map_of (objects ?after r) ''csrfToken'' = Some (csrfToken w)"
    unfolding written by simp
  have origin: "map_of (objects ?after r) ''origin'' = Some (JStr (page_origin P))"
    unfolding written by simp
  have others: "objects ?after r' = objects w r'" if "r' \<noteq> r" for r'
    unfolding kept using that by (simp add: inject_def)
  have sent: "calls ?after = calls w @ [?call]"
    by (rule makeRequest_calls)
  have serialised: "req_body ?call = Some (stringify (JObj (objects ?after r)))"
    unfolding kept by (simp add: request_for_def)
  from sent serialised
  have "\<exists>call. calls ?after = calls w @ [call]
               \<and> req_body call = Some (stringify (JObj (objects ?after r)))"
    by blast
  with written token origin others show ?thesis by blast
qed

text \<open>C9 on the example form, held at reference 0, with the held token \<^verbatim>\<open>t0\<close>.\<close>

theorem makeRequest_writes_into_callers_object_witness:
  "objects (snd (makeRequest (example_platform (answering ''{oops'')) ready_world ''POST'' []
                   (Some 0))) 0
     = example_form @ [(''csrfToken'', JStr ''t0''),
                        (''origin'', JStr ''https://djamchid.github.io'')]
   \<and> objects (snd (makeRequest (example_platform (answering ''{oops'')) ready_world ''POST'' []
                      (Some 0))) 1 = objects ready_world 1"
  using makeRequest_writes_into_callers_object
          [of "example_platform (answering ''{oops'')" ready_world "[]" 0]
  by (simp add: ready_world_def example_form_def)

text \<open>
  Claim C8. \<^verbatim>\<open>validateFormData({})\<close> throws the error whose message lists the five
  required fields. For any data object, every required field that is absent or falsy is
  among the names of the thrown error's message, which is the prefix followed by the
  missing names in the order of \<^verbatim>\<open>requiredFields\<close>, joined by a comma and a space.
\<close>

theorem validateFormData_names_every_missing_field:
  "validateFormData (Some [])
     = Inl (Error ''Champs obligatoires manquants: nom, email, categorie, detail, portions'')
   \<and> (\<forall>field \<in> set requiredFields. \<not> truthy_opt (map_of data field) \<longrightarrow>
         (\<exists>names. validateFormData (Some data)
                     = Inl (Error (''Champs obligatoires manquants: '' @ join '', '' names))
                 \<and> names = filter (\<lambda>f. \<not> truthy_opt (map_of data f)) requiredFields
                 \<and> field \<in> set names
                 \<and> includes_str (''Champs obligatoires manquants: '' @ join '', '' names) field))"
proof (intro conjI ballI impI)
  show "validateFormData (Some [])
     = Inl (Error ''Champs obligatoires manquants: nom, email, categorie, detail, portions'')"
    by (simp add: validateFormData_def missingFields_def requiredFields_def msg_missing_def)
next
  fix field
  assume f: "field \<in> set requiredFields" and m: "\<not> truthy_opt (map_of data field)"
  then have mem: "field \<in> set (missingFields data)"
    by (simp add: missingFields_def)
  then have ne: "missingFields data \<noteq> []" by auto
  have v: "validateFormData (Some data) = Inl (Error (msg_missing (missingFields data)))"
    using ne by (simp add: validateFormData_def)
  have i: "includes_str (msg_missing (missingFields data)) field"
    using mem by (rule msg_missing_names)
  show "\<exists>names. validateFormData (Some data)
                     = Inl (Error (''Champs obligatoires manquants: '' @ join '', '' names))
                 \<and> names = filter (\<lambda>f. \<not> truthy_opt (map_of data f)) requiredFields
                 \<and> field \<in> set names
                 \<and> includes_str (''Champs obligatoires manquants: '' @ join '', '' names) field"
    using v i mem unfolding msg_missing_def missingFields_def by blast
qed

text \<open>C8 on an object that has \<^verbatim>\<open>nom\<close> and a \<^verbatim>\<open>portions\<close> of 0.\<close>

theorem validateFormData_names_every_missing_field_witness:
  "''email'' \<in> set requiredFields
   \<and> \<not> truthy_opt (map_of [(''nom'', JStr ''Alice''), (''portions'', JNum 0)] ''email'')
   \<and> validateFormData (Some [(''nom'', JStr ''Alice''), (''portions'', JNum 0)])
       = Inl (Error ''Champs obligatoires manquants: email, categorie, detail, portions'')"
proof -
  let ?d = "[(''nom'', JStr ''Alice''), (''portions'', JNum 0)]"
  have a: "''email'' \<in> set requiredFields" by (simp add: requiredFields_def)
  have b: "\<not> truthy_opt (map_of ?d ''email'')" by simp
  have c: "filter (\<lambda>f. \<not> truthy_opt (map_of ?d f)) requiredFields
             = [''email'', ''categorie'', ''detail'', ''portions'']"
    by (simp add: requiredFields_def)
  from validateFormData_names_every_missing_field [where data = ?d, THEN conjunct2, THEN bspec, OF a, THEN mp, OF b]
  have "validateFormData (Some ?d)
          = Inl (Error (''Champs obligatoires manquants: ''
                          @ join '', '' [''email'', ''categorie'', ''detail'', ''portions'']))"
    unfolding c by blast
  then show ?thesis using a b by simp
qed

text \<open>
  Claim C1, on the code. Let \<open>w0\<close> be the client after the lazy \<^verbatim>\<open>init\<close> of lines
  200-202 (the client itself when it is initialised). With a valid form, when the first
  POST is answered with status 2xx and the body
  \<^verbatim>\<open>{result:"error", error:"jeton invalide"}\<close>, \<^verbatim>\<open>makeRequest\<close> throws, the test of line
  210 is never reached, and \<^verbatim>\<open>submitContribution\<close> rejects with that message: the POST
  is the last call made, with no token refresh and no resubmission after it.
\<close>

theorem submitContribution_error_envelope_is_not_retried:
  assumes "w0 = (if \<not> isInitialized w then snd (init P w) else w)"
    and "validateFormData (map_option (objects w0) formData) = Inr valid"
    and "fetch P (length (calls w0)) (request_for P w0 ''POST'' [] formData)
           = Responded st st_text payload"
    and "200 \<le> st" "st \<le> 299"
    and "JSON_parse P payload
           = Some (JObj [(''result'', JStr ''error''), (''error'', JStr ''jeton invalide'')])"
  shows "fst (submitContribution P w formData) = Inl (Error ''jeton invalide'')
       \<and> calls (snd (submitContribution P w formData))
           = calls w0 @ [request_for P w0 ''POST'' [] formData]
       \<and> lastError (snd (submitContribution P w formData))
           = JStr (msg_submit_prefix @ ''jeton invalide'')"
proof -
  obtain r w1 where mr: "makeRequest P w0 ''POST'' [] formData = (r, w1)"
    by (cases "makeRequest P w0 ''POST'' [] formData")
  have "fst (makeRequest P w0 ''POST'' [] formData) = Inl (Error ''jeton invalide'')"
    using makeRequest_parsed(2) [OF assms(3-6)] by (simp add: truthy_prop_def)
  then have r: "r = Inl (Error ''jeton invalide'')" using mr by simp
  have c: "calls w1 = calls w0 @ [request_for P w0 ''POST'' [] formData]"
    using makeRequest_calls [of P w0 "''POST''" "[]" formData] mr by simp
  have "submit_try P w formData = (Inl (Error ''jeton invalide''), w1)"
    using assms(2) mr r unfolding assms(1) by (simp add: submit_try_def Let_def)
  then show ?thesis
    using c by (simp add: submitContribution_def message_or_def)
qed

text \<open>C1 on the example form: the only call made is the first POST.\<close>

theorem submitContribution_error_envelope_is_not_retried_witness:
  \<open>isInitialized ready_world
   \<and> validateFormData (map_option (objects ready_world) (Some 0)) = Inr True
   \<and> fst (submitContribution
             (example_platform (answering ''{"result":"error","error":"jeton invalide"}''))
             ready_world (Some 0)) = Inl (Error ''jeton invalide'')
   \<and> map http_method
        (calls (snd (submitContribution
                       (example_platform (answering ''{"result":"error","error":"jeton invalide"}''))
                       ready_world (Some 0)))) = [''POST'']\<close>
proof -
  let ?P = \<open>example_platform (answering ''{"result":"error","error":"jeton invalide"}'')\<close>
  have i: "isInitialized ready_world" by (simp add: ready_world_def)
  have w0: "ready_world = (if \<not> isInitialized ready_world then snd (init ?P ready_world)
                           else ready_world)"
    by (simp add: i)
  have v: "validateFormData (map_option (objects ready_world) (Some 0)) = Inr True"
    by (simp add: ready_world_def example_form_valid)
  have f: "fetch (example_platform (answering payload)) n c = Responded 200 ''OK'' payload"
    for payload n c
    by (simp add: answering_def)
  have p: \<open>JSON_parse ?P ''{"result":"error","error":"jeton invalide"}''
             = Some (JObj [(''result'', JStr ''error''), (''error'', JStr ''jeton invalide'')])\<close>
    by (simp add: json_texts_def)
  have c0: "calls ready_world = []" by (simp add: ready_world_def)
  have m: "http_method (request_for ?P ready_world ''POST'' [] (Some 0)) = ''POST''"
    by (simp add: request_for_def)
  have t: "fst (submitContribution ?P ready_world (Some 0)) = Inl (Error ''jeton invalide'')
       \<and> calls (snd (submitContribution ?P ready_world (Some 0)))
           = calls ready_world @ [request_for ?P ready_world ''POST'' [] (Some 0)]
       \<and> lastError (snd (submitContribution ?P ready_world (Some 0)))
           = JStr (msg_submit_prefix @ ''jeton invalide'')"
    by (rule submitContribution_error_envelope_is_not_retried [OF w0 v f _ _ p]) simp_all
  show ?thesis using t i v by (simp add: c0 m)
qed

end
